theory Spec2Isabelle
  imports Complex_Main
begin

section \<open>JavaScript numbers\<close>

text \<open>
  The TypeScript sources compute on \<^verbatim>\<open>number\<close>, an IEEE 754 double. A finite value is
  modelled as the real it denotes; the sign of zero is outside the model (a zero
  denominator is +0). The non-finite values are kept: \<open>x / 0\<close> is \<open>PInf\<close>, \<open>NInf\<close> or
  \<open>NaN\<close> as in JavaScript, and the arithmetic, \<^verbatim>\<open>Math.min\<close>, \<^verbatim>\<open>Math.max\<close>,
  \<^verbatim>\<open>Math.round\<close> and the comparisons treat them as JavaScript does.

  Two families of operations follow. The operations \<open>js_add\<close>, \<open>js_sub\<close>, \<open>js_mul\<close> and
  \<open>js_div\<close> of this section compute the exact result on finite operands; the operations
  \<open>f_add\<close>, \<open>f_sub\<close>, \<open>f_mul\<close> and \<open>f_div\<close> of the next section round it to the nearest
  double. The statistics of \<^verbatim>\<open>stats.ts\<close>, the stress index of \<^verbatim>\<open>advancedStats.ts\<close> and
  \<^verbatim>\<open>getTrendDirection\<close> are modelled with the rounded operations; pNN50, the frequency
  domain, the readiness score, the recovery score and the trend aggregator are modelled
  with the exact ones.
\<close>

datatype jsnum = Num real | PInf | NInf | NaN


fun js_add :: "jsnum \<Rightarrow> jsnum \<Rightarrow> jsnum" where
  "js_add (Num a) (Num b) = Num (a + b)"
| "js_add NaN _ = NaN"
| "js_add _ NaN = NaN"
| "js_add PInf NInf = NaN"
| "js_add NInf PInf = NaN"
| "js_add PInf _ = PInf"
| "js_add _ PInf = PInf"
| "js_add NInf _ = NInf"
| "js_add _ NInf = NInf"

fun js_neg :: "jsnum \<Rightarrow> jsnum" where
  "js_neg (Num a) = Num (- a)"
| "js_neg PInf = NInf"
| "js_neg NInf = PInf"
| "js_neg NaN = NaN"

definition js_sub :: "jsnum \<Rightarrow> jsnum \<Rightarrow> jsnum" where
  "js_sub a b = js_add a (js_neg b)"

text \<open>The sign of an infinite product or quotient; zero times infinity is NaN.\<close>

definition js_signed_inf :: "real \<Rightarrow> jsnum" where
  "js_signed_inf s = (if 0 < s then PInf else if s < 0 then NInf else NaN)"

fun js_mul :: "jsnum \<Rightarrow> jsnum \<Rightarrow> jsnum" where
  "js_mul (Num a) (Num b) = Num (a * b)"
| "js_mul NaN _ = NaN"
| "js_mul _ NaN = NaN"
| "js_mul PInf (Num b) = js_signed_inf b"
| "js_mul NInf (Num b) = js_signed_inf (- b)"
| "js_mul (Num a) PInf = js_signed_inf a"
| "js_mul (Num a) NInf = js_signed_inf (- a)"
| "js_mul PInf PInf = PInf"
| "js_mul NInf NInf = PInf"
| "js_mul PInf NInf = NInf"
| "js_mul NInf PInf = NInf"

fun js_div :: "jsnum \<Rightarrow> jsnum \<Rightarrow> jsnum" where
  "js_div (Num a) (Num b) = (if b \<noteq> 0 then Num (a / b) else js_signed_inf a)"
| "js_div NaN _ = NaN"
| "js_div _ NaN = NaN"
| "js_div (Num a) PInf = Num 0"
| "js_div (Num a) NInf = Num 0"
| "js_div PInf (Num b) = (if 0 \<le> b then PInf else NInf)"
| "js_div NInf (Num b) = (if 0 \<le> b then NInf else PInf)"
| "js_div PInf PInf = NaN"
| "js_div PInf NInf = NaN"
| "js_div NInf PInf = NaN"
| "js_div NInf NInf = NaN"

text \<open>Comparisons: every comparison with NaN is false.\<close>

fun js_lt :: "jsnum \<Rightarrow> jsnum \<Rightarrow> bool" where
  "js_lt (Num a) (Num b) = (a < b)"
| "js_lt NaN _ = False"
| "js_lt _ NaN = False"
| "js_lt _ NInf = False"
| "js_lt PInf _ = False"
| "js_lt NInf _ = True"
| "js_lt _ PInf = True"

fun js_eq :: "jsnum \<Rightarrow> jsnum \<Rightarrow> bool" where
  "js_eq NaN _ = False"
| "js_eq _ NaN = False"
| "js_eq a b = (a = b)"

definition js_gt :: "jsnum \<Rightarrow> jsnum \<Rightarrow> bool" where
  "js_gt a b = js_lt b a"

definition js_le :: "jsnum \<Rightarrow> jsnum \<Rightarrow> bool" where
  "js_le a b = (js_lt a b \<or> js_eq a b)"

definition js_ge :: "jsnum \<Rightarrow> jsnum \<Rightarrow> bool" where
  "js_ge a b = js_le b a"

text \<open>\<^verbatim>\<open>Math.min\<close> and \<^verbatim>\<open>Math.max\<close> of two arguments: NaN if either is NaN.\<close>

fun Math_min :: "jsnum \<Rightarrow> jsnum \<Rightarrow> jsnum" where
  "Math_min NaN _ = NaN"
| "Math_min _ NaN = NaN"
| "Math_min a b = (if js_lt b a then b else a)"

fun Math_max :: "jsnum \<Rightarrow> jsnum \<Rightarrow> jsnum" where
  "Math_max NaN _ = NaN"
| "Math_max _ NaN = NaN"
| "Math_max a b = (if js_lt a b then b else a)"

text \<open>
  \<^verbatim>\<open>Math.round\<close> rounds to the nearest integer, a tie towards +Infinity: it is
  \<open>\<lfloor>x + 1/2\<rfloor>\<close>, which is \<^const>\<open>round\<close> of HOL.
\<close>

definition round_real :: "real \<Rightarrow> real" where
  "round_real x = of_int (round x)"

fun Math_round :: "jsnum \<Rightarrow> jsnum" where
  "Math_round (Num a) = Num (round_real a)"
| "Math_round a = a"

text \<open>\<^verbatim>\<open>xs.reduce((a, b) => a + b, 0)\<close>\<close>

definition reduce_sum :: "real list \<Rightarrow> real" where
  "reduce_sum xs = foldl (\<lambda>a b. a + b) 0 xs"

definition js_reduce_sum :: "jsnum list \<Rightarrow> jsnum" where
  "js_reduce_sum xs = foldl js_add (Num 0) xs"

section \<open>IEEE 754 doubles\<close>

text \<open>
  A finite double is \<open>m * 2^q\<close> with an integer mantissa \<open>|m| < 2^53\<close> and an exponent
  \<open>-1074 \<le> q \<le> 971\<close>.
\<close>

definition is_double :: "real \<Rightarrow> bool" where
  "is_double x = (\<exists>m q :: int. x = of_int m * 2 powi q \<and> \<bar>m\<bar> < 2 ^ 53 \<and> - 1074 \<le> q \<and> q \<le> 971)"

text \<open>
  Rounding to nearest, ties to even. \<open>ulp_exponent x\<close> is the exponent of the last
  mantissa bit of the doubles around \<open>x\<close> (\<open>-1074\<close> throughout the subnormal range);
  \<open>fl x\<close> rounds \<open>x\<close> to a multiple of that unit, and gives an infinity from
  \<open>2^1024 - 2^970\<close> on, the midpoint between the largest double and \<open>2^1024\<close>.
\<close>

definition round_half_even :: "real \<Rightarrow> int" where
  "round_half_even x =
     (let f = \<lfloor>x\<rfloor>; d = x - of_int f
      in if d < 1 / 2 then f else if d > 1 / 2 then f + 1 else if even f then f else f + 1)"

definition ulp_exponent :: "real \<Rightarrow> int" where
  "ulp_exponent x = max \<lfloor>log 2 \<bar>x\<bar>\<rfloor> (- 1022) - 52"

definition fl :: "real \<Rightarrow> jsnum" where
  "fl x =
     (if x = 0 then Num 0
      else if \<bar>x\<bar> \<ge> 2 ^ 1024 - 2 ^ 970 then (if x > 0 then PInf else NInf)
      else Num (of_int (round_half_even (x / 2 powi ulp_exponent x)) * 2 powi ulp_exponent x))"

text \<open>
  The arithmetic of doubles: the exact result of two finite operands is rounded; with an
  infinite or \<open>NaN\<close> operand, or a zero divisor, the result is that of the exact operations
  above.
\<close>

definition f_add :: "jsnum \<Rightarrow> jsnum \<Rightarrow> jsnum" where
  "f_add a b = (case (a, b) of (Num x, Num y) \<Rightarrow> fl (x + y) | _ \<Rightarrow> js_add a b)"

definition f_sub :: "jsnum \<Rightarrow> jsnum \<Rightarrow> jsnum" where
  "f_sub a b = (case (a, b) of (Num x, Num y) \<Rightarrow> fl (x - y) | _ \<Rightarrow> js_sub a b)"

definition f_mul :: "jsnum \<Rightarrow> jsnum \<Rightarrow> jsnum" where
  "f_mul a b = (case (a, b) of (Num x, Num y) \<Rightarrow> fl (x * y) | _ \<Rightarrow> js_mul a b)"

definition f_div :: "jsnum \<Rightarrow> jsnum \<Rightarrow> jsnum" where
  "f_div a b =
     (case (a, b) of
        (Num x, Num y) \<Rightarrow> (if y \<noteq> 0 then fl (x / y) else js_signed_inf x)
      | _ \<Rightarrow> js_div a b)"

text \<open>
  \<^verbatim>\<open>Math.sqrt\<close> is the rounded square root, \<^verbatim>\<open>Math.pow(x, 2)\<close> the rounded product
  \<open>x * x\<close>, and \<^verbatim>\<open>Math.floor\<close> is exact.
\<close>

fun Math_sqrt :: "jsnum \<Rightarrow> jsnum" where
  "Math_sqrt (Num a) = (if a < 0 then NaN else fl (sqrt a))"
| "Math_sqrt PInf = PInf"
| "Math_sqrt NInf = NaN"
| "Math_sqrt NaN = NaN"

definition Math_pow2 :: "jsnum \<Rightarrow> jsnum" where
  "Math_pow2 a = f_mul a a"

fun Math_floor :: "jsnum \<Rightarrow> jsnum" where
  "Math_floor (Num a) = Num (of_int \<lfloor>a\<rfloor>)"
| "Math_floor a = a"

text \<open>\<^verbatim>\<open>xs.reduce((a, b) => a + b, 0)\<close> in double arithmetic: the sum from left to right.\<close>

definition f_reduce_sum :: "jsnum list \<Rightarrow> jsnum" where
  "f_reduce_sum xs = foldl f_add (Num 0) xs"

text \<open>A number of magnitude at least \<open>c\<close>: an infinity qualifies, \<open>NaN\<close> does not.\<close>

definition mag_ge :: "jsnum \<Rightarrow> real \<Rightarrow> bool" where
  "mag_ge a c = (case a of Num r \<Rightarrow> c \<le> \<bar>r\<bar> | PInf \<Rightarrow> True | NInf \<Rightarrow> True | NaN \<Rightarrow> False)"

section \<open>Running Statistics Engine (stats.ts)\<close>

text \<open>
  The interface \<^verbatim>\<open>SessionStats\<close>. Its fields are numbers: \<^verbatim>\<open>getStats\<close> fills them by
  double arithmetic, with values of type \<^typ>\<open>jsnum\<close>; the readiness score, the recovery
  score and the trend aggregator read stored finite values, of type \<^typ>\<open>real\<close>.
\<close>

record 'n SessionStats =
  minHr :: 'n
  maxHr :: 'n
  avgHr :: 'n
  sdnn :: 'n
  rmssd :: 'n
  duration :: 'n

text \<open>The private fields of class \<^verbatim>\<open>StatsCalculator\<close>.\<close>

record StatsCalculator =
  heartRates :: "real list"
  sc_rrIntervals :: "real list"
  sc_startTime :: int

definition StatsCalculator_new :: StatsCalculator where
  "StatsCalculator_new = \<lparr>heartRates = [], sc_rrIntervals = [], sc_startTime = 0\<rparr>"


definition addReading :: "int \<Rightarrow> real \<Rightarrow> real list option \<Rightarrow> StatsCalculator \<Rightarrow> StatsCalculator" where
  "addReading now hr rrs c =
     (let c1 = (if length (heartRates c) = 0 then c\<lparr>sc_startTime := now\<rparr> else c);
          c2 = c1\<lparr>heartRates := heartRates c1 @ [hr]\<rparr>
      in case rrs of
           None \<Rightarrow> c2
         | Some r \<Rightarrow> c2\<lparr>sc_rrIntervals := sc_rrIntervals c2 @ r\<rparr>)"

text \<open>
  The RMSSD loop \<^verbatim>\<open>for (let i = 1; i < rr.length; i++) sum += Math.pow(rr[i] - rr[i-1], 2)\<close>.
\<close>

function sumSquaredDiffs_loop :: "real list \<Rightarrow> nat \<Rightarrow> jsnum \<Rightarrow> jsnum" where
  "sumSquaredDiffs_loop rr i acc =
     (if i < length rr
      then sumSquaredDiffs_loop rr (i + 1)
             (f_add acc (Math_pow2 (f_sub (Num (rr ! i)) (Num (rr ! (i - 1))))))
      else acc)"
  by pat_completeness auto
termination
  by (relation "measure (\<lambda>(rr, i, acc). length rr - i)") auto

declare sumSquaredDiffs_loop.simps [simp del]

text \<open>
  \<^verbatim>\<open>getStats\<close>. The lengths are integers below \<open>2^32\<close> and the clock values integers below
  \<open>2^53\<close>, so \<^verbatim>\<open>length - 1\<close> and \<^verbatim>\<open>Date.now() - this.startTime\<close> are exact.
\<close>

definition getStats :: "int \<Rightarrow> StatsCalculator \<Rightarrow> jsnum SessionStats" where
  "getStats now c =
     (case heartRates c of
        [] \<Rightarrow> \<lparr>minHr = Num 0, maxHr = Num 0, avgHr = Num 0, sdnn = Num 0, rmssd = Num 0,
               duration = Num 0\<rparr>
      | h # hs \<Rightarrow>
          (let rr = sc_rrIntervals c;
               n = Num (real (length rr));
               (sdnn_v, rmssd_v) =
                 (if length rr > 1
                  then (let meanRR = f_div (f_reduce_sum (map Num rr)) n;
                            squaredDiffs = map (\<lambda>x. Math_pow2 (f_sub (Num x) meanRR)) rr;
                            variance = f_div (f_reduce_sum squaredDiffs) n;
                            sumSquaredDiffs = sumSquaredDiffs_loop rr 1 (Num 0)
                        in (Math_round (Math_sqrt variance),
                            Math_round (Math_sqrt
                              (f_div sumSquaredDiffs (Num (real (length rr) - 1))))))
                  else (Num 0, Num 0))
           in \<lparr>minHr = Num (foldl min h hs),
               maxHr = Num (foldl max h hs),
               avgHr = Math_round (f_div (f_reduce_sum (map Num (heartRates c)))
                                         (Num (real (length (heartRates c))))),
               sdnn = sdnn_v,
               rmssd = rmssd_v,
               duration = Math_floor (f_div (Num (real_of_int (now - sc_startTime c))) (Num 1000))\<rparr>))"

section \<open>Spectral Analysis Engine and Stress Index (advancedStats.ts)\<close>

record FrequencyDomain =
  lf :: jsnum
  hf :: jsnum
  lfHfRatio :: jsnum
  respirationRate :: jsnum

record AdvancedStats = FrequencyDomain +
  pnn50 :: jsnum
  stressIndex :: jsnum

text \<open>The private fields of class \<^verbatim>\<open>AdvancedStatsCalculator\<close>.\<close>

record AdvancedStatsCalculator =
  rrIntervals :: "real list"
  cachedFrequencyDomain :: FrequencyDomain
  lastFrequencyCalculation :: int

definition FREQUENCY_CALCULATION_INTERVAL_MS :: int where
  "FREQUENCY_CALCULATION_INTERVAL_MS = 5000"

definition zeroFrequencyDomain :: FrequencyDomain where
  "zeroFrequencyDomain = \<lparr>lf = Num 0, hf = Num 0, lfHfRatio = Num 0, respirationRate = Num 0\<rparr>"

definition AdvancedStatsCalculator_new :: AdvancedStatsCalculator where
  "AdvancedStatsCalculator_new =
     \<lparr>rrIntervals = [], cachedFrequencyDomain = zeroFrequencyDomain,
      lastFrequencyCalculation = 0\<rparr>"

definition addRRIntervals :: "real list \<Rightarrow> AdvancedStatsCalculator \<Rightarrow> AdvancedStatsCalculator" where
  "addRRIntervals rrs c = c\<lparr>rrIntervals := rrIntervals c @ rrs\<rparr>"

definition reset :: "AdvancedStatsCalculator \<Rightarrow> AdvancedStatsCalculator" where
  "reset c = \<lparr>rrIntervals = [], cachedFrequencyDomain = zeroFrequencyDomain,
              lastFrequencyCalculation = 0\<rparr>"

subsection \<open>pNN50\<close>

function nn50_loop :: "real list \<Rightarrow> nat \<Rightarrow> nat \<Rightarrow> nat" where
  "nn50_loop rr i nn50 =
     (if i < length rr
      then nn50_loop rr (i + 1) (if \<bar>rr ! i - rr ! (i - 1)\<bar> > 50 then nn50 + 1 else nn50)
      else nn50)"
  by pat_completeness auto
termination
  by (relation "measure (\<lambda>(rr, i, nn50). length rr - i)") auto

declare nn50_loop.simps [simp del]

definition calculatePNN50 :: "real list \<Rightarrow> jsnum" where
  "calculatePNN50 rr =
     js_mul (js_div (Num (real (nn50_loop rr 1 0))) (Num (real (length rr) - 1))) (Num 100)"

subsection \<open>Baevsky stress index\<close>

text \<open>
  The histogram \<^verbatim>\<open>bins: Record<number, number>\<close> is an object: its keys in the order
  they were first written, each with its count. A key is the number that was written
  (two numbers give the same property name exactly when they are equal, and
  \<^verbatim>\<open>Number(bin)\<close> gives the number back). \<^verbatim>\<open>bins[bin] = (bins[bin] || 0) + 1\<close>:
\<close>

fun bins_incr :: "jsnum \<Rightarrow> (jsnum \<times> nat) list \<Rightarrow> (jsnum \<times> nat) list" where
  "bins_incr k [] = [(k, 1)]"
| "bins_incr k ((k', c) # rest) =
     (if k = k' then (k', (if c = 0 then 0 else c) + 1) # rest else (k', c) # bins_incr k rest)"

text \<open>
  \<^verbatim>\<open>Object.entries\<close> lists the keys that are array indices (integers from 0 to
  \<open>2^32 - 2\<close>) in ascending order first, then the other keys in insertion order.
\<close>

definition is_array_index :: "jsnum \<Rightarrow> bool" where
  "is_array_index k =
     (case k of Num r \<Rightarrow> r = of_int \<lfloor>r\<rfloor> \<and> 0 \<le> r \<and> r < 4294967295 | _ \<Rightarrow> False)"

definition index_value :: "jsnum \<Rightarrow> real" where
  "index_value k = (case k of Num r \<Rightarrow> r | _ \<Rightarrow> 0)"

definition Object_entries :: "(jsnum \<times> nat) list \<Rightarrow> (jsnum \<times> nat) list" where
  "Object_entries bins =
     sort_key (\<lambda>e. index_value (fst e)) (filter (\<lambda>e. is_array_index (fst e)) bins) @
     filter (\<lambda>e. \<not> is_array_index (fst e)) bins"

definition binSize :: jsnum where
  "binSize = Num 50"

text \<open>One step of the \<^verbatim>\<open>forEach\<close> over the intervals: running minimum, maximum, histogram.\<close>

definition histogram_step ::
  "jsnum \<times> jsnum \<times> (jsnum \<times> nat) list \<Rightarrow> real \<Rightarrow> jsnum \<times> jsnum \<times> (jsnum \<times> nat) list" where
  "histogram_step st rr =
     (case st of (minRR, maxRR, bins) \<Rightarrow>
        (if js_lt (Num rr) minRR then Num rr else minRR,
         if js_gt (Num rr) maxRR then Num rr else maxRR,
         bins_incr (f_mul (Math_round (f_div (Num rr) binSize)) binSize) bins))"

text \<open>One step of the scan for the modal bin: \<^verbatim>\<open>if (count > maxCount) ...\<close>.\<close>

definition mode_step :: "nat \<times> jsnum \<Rightarrow> jsnum \<times> nat \<Rightarrow> nat \<times> jsnum" where
  "mode_step st e =
     (case st of (maxCount, mode) \<Rightarrow>
        (case e of (bin, count) \<Rightarrow> if count > maxCount then (count, bin) else (maxCount, mode)))"

text \<open>The \<^verbatim>\<open>forEach\<close> from \<^verbatim>\<open>minRR = Infinity\<close>, \<^verbatim>\<open>maxRR = -Infinity\<close>, \<^verbatim>\<open>bins = {}\<close>.\<close>

definition stress_histogram :: "real list \<Rightarrow> jsnum \<times> jsnum \<times> (jsnum \<times> nat) list" where
  "stress_histogram rr = foldl histogram_step (PInf, NInf, []) rr"

text \<open>The scan of \<^verbatim>\<open>Object.entries(bins)\<close> from \<^verbatim>\<open>maxCount = 0\<close>, \<^verbatim>\<open>mode = 0\<close>.\<close>

definition modal_bin :: "(jsnum \<times> nat) list \<Rightarrow> nat \<times> jsnum" where
  "modal_bin bins = foldl mode_step (0, Num 0) (Object_entries bins)"

definition calculateStressIndex :: "real list \<Rightarrow> jsnum" where
  "calculateStressIndex rr =
     (if length rr < 30 then Num 0
      else
        (case stress_histogram rr of (minRR, maxRR, bins) \<Rightarrow>
          (case modal_bin bins of (maxCount, mode) \<Rightarrow>
             (let total = Num (real (length rr));
                  AMo = f_mul (f_div (Num (real maxCount)) total) (Num 100);
                  Mo = f_div mode (Num 1000);
                  MxDMn = f_div (f_sub maxRR minRR) (Num 1000)
              in if js_eq MxDMn (Num 0) \<or> js_eq Mo (Num 0) then Num 0
                 else Math_round (f_div AMo (f_mul (f_mul (Num 2) Mo) MxDMn))))))"

subsection \<open>Frequency domain\<close>

text \<open>
  Resampling to 4 Hz. The inner \<^verbatim>\<open>while\<close> moves to the RR interval that covers time
  \<open>t\<close>; the outer \<^verbatim>\<open>for\<close> emits one sample per grid point.
\<close>

function find_interval :: "real list \<Rightarrow> real \<Rightarrow> nat \<Rightarrow> real \<Rightarrow> nat \<times> real" where
  "find_interval rr t rrIndex currentRRStartTime =
     (if rrIndex < length rr \<and> currentRRStartTime + rr ! rrIndex / 1000 < t
      then find_interval rr t (rrIndex + 1) (currentRRStartTime + rr ! rrIndex / 1000)
      else (rrIndex, currentRRStartTime))"
  by pat_completeness auto
termination
  by (relation "measure (\<lambda>(rr, t, rrIndex, cur). length rr - rrIndex)") auto

declare find_interval.simps [simp del]

function resample_loop ::
  "real list \<Rightarrow> nat \<Rightarrow> nat \<Rightarrow> nat \<Rightarrow> real \<Rightarrow> real list \<Rightarrow> real list" where
  "resample_loop rr numSamples i rrIndex currentRRStartTime interpolated =
     (if i < numSamples
      then (case find_interval rr (real i / 4) rrIndex currentRRStartTime of
              (rrIndex', cur') \<Rightarrow>
                resample_loop rr numSamples (i + 1) rrIndex' cur'
                  (if rrIndex' < length rr then interpolated @ [rr ! rrIndex'] else interpolated))
      else interpolated)"
  by pat_completeness auto
termination
  by (relation "measure (\<lambda>(rr, numSamples, i, rrIndex, cur, out). numSamples - i)") auto

declare resample_loop.simps [simp del]

definition resample :: "real list \<Rightarrow> real list" where
  "resample rr =
     (let samplingRate = 4;
          durationSec = reduce_sum rr / 1000;
          numSamples = nat \<lfloor>durationSec * samplingRate\<rfloor>
      in resample_loop rr numSamples 0 0 0 [])"

text \<open>
  The Hamming window. \<^verbatim>\<open>Math.cos\<close> of a non-finite argument is NaN; with a single
  resampled value the window divides 0 by 0.
\<close>

fun Math_cos :: "jsnum \<Rightarrow> jsnum" where
  "Math_cos (Num a) = Num (cos a)"
| "Math_cos _ = NaN"

definition hamming_window :: "real list \<Rightarrow> jsnum list" where
  "hamming_window interpolated =
     map (\<lambda>(i, val).
            js_mul (Num val)
              (js_sub (Num 0.54)
                 (js_mul (Num 0.46)
                    (Math_cos (js_div (Num (2 * pi * real i))
                                      (Num (real (length interpolated) - 1)))))))
         (enumerate 0 interpolated)"

text \<open>Zero padding or truncation to \<open>n\<close> values.\<close>

definition zero_pad :: "nat \<Rightarrow> jsnum list \<Rightarrow> jsnum list" where
  "zero_pad n windowed = take n (windowed @ replicate n (Num 0))"

text \<open>
  The transform is the external library fft.js: \<^verbatim>\<open>realTransform\<close> followed by
  \<^verbatim>\<open>completeSpectrum\<close>. It is the parameter \<open>fft\<close> of the model, from the input array
  to the interleaved complex array \<^verbatim>\<open>out\<close>. A read of \<^verbatim>\<open>out\<close> past its end is
  \<^verbatim>\<open>undefined\<close>, which is NaN in arithmetic.
\<close>

definition array_get :: "jsnum list \<Rightarrow> nat \<Rightarrow> jsnum" where
  "array_get out i = (if i < length out then out ! i else NaN)"

text \<open>
  One round of the band integration loop, on the state
  \<open>(lfPower, hfPower, maxHfPower, peakHfFreq)\<close>.
\<close>

definition band_step ::
  "jsnum list \<Rightarrow> real \<Rightarrow> jsnum \<times> jsnum \<times> jsnum \<times> real \<Rightarrow> nat \<Rightarrow>
     jsnum \<times> jsnum \<times> jsnum \<times> real" where
  "band_step out resolution st i =
     (case st of (lfPower, hfPower, maxHfPower, peakHfFreq) \<Rightarrow>
        (let freq = real i * resolution;
             re = array_get out (2 * i);
             im = array_get out (2 * i + 1);
             power = js_add (js_mul re re) (js_mul im im);
             lfPower' = (if freq \<ge> 0.04 \<and> freq < 0.15 then js_add lfPower power else lfPower)
         in if freq \<ge> 0.15 \<and> freq < 0.4
            then (if js_gt power maxHfPower
                  then (lfPower', js_add hfPower power, power, freq)
                  else (lfPower', js_add hfPower power, maxHfPower, peakHfFreq))
            else (lfPower', hfPower, maxHfPower, peakHfFreq)))"

definition calculateFrequencyDomain ::
  "(jsnum list \<Rightarrow> jsnum list) \<Rightarrow> real list \<Rightarrow> FrequencyDomain" where
  "calculateFrequencyDomain fft rr =
     (if length rr < 60 then zeroFrequencyDomain
      else
        (let interpolated = resample rr;
             windowed = hamming_window interpolated;
             n = 1024;
             input = zero_pad n windowed;
             out = fft input;
             resolution = 4 / real n
         in (case foldl (band_step out resolution) (Num 0, Num 0, Num 0, 0) [0..<n div 2] of
               (lfPower, hfPower, maxHfPower, peakHfFreq) \<Rightarrow>
                 \<lparr>lf = Math_round lfPower,
                  hf = Math_round hfPower,
                  lfHfRatio =
                    (if js_gt hfPower (Num 0)
                     then js_div (Math_round (js_mul (js_div lfPower hfPower) (Num 100))) (Num 100)
                     else Num 0),
                  respirationRate =
                    (if js_gt maxHfPower (Num 0) then Num (round_real (peakHfFreq * 60))
                     else Num 0)\<rparr>)))"

subsection \<open>calculate\<close>

definition calculate ::
  "(jsnum list \<Rightarrow> jsnum list) \<Rightarrow> int \<Rightarrow> AdvancedStatsCalculator \<Rightarrow>
     AdvancedStats \<times> AdvancedStatsCalculator" where
  "calculate fft now c =
     (if length (rrIntervals c) < 2
      then (\<lparr>lf = Num 0, hf = Num 0, lfHfRatio = Num 0, respirationRate = Num 0,
             pnn50 = Num 0, stressIndex = Num 0\<rparr>, c)
      else
        (let c' = (if now - lastFrequencyCalculation c > FREQUENCY_CALCULATION_INTERVAL_MS
                   then c\<lparr>cachedFrequencyDomain :=
                            calculateFrequencyDomain fft (rrIntervals c),
                          lastFrequencyCalculation := now\<rparr>
                   else c)
         in (\<lparr>lf = lf (cachedFrequencyDomain c'),
              hf = hf (cachedFrequencyDomain c'),
              lfHfRatio = lfHfRatio (cachedFrequencyDomain c'),
              respirationRate = respirationRate (cachedFrequencyDomain c'),
              pnn50 = calculatePNN50 (rrIntervals c'),
              stressIndex = calculateStressIndex (rrIntervals c')\<rparr>, c')))"

text \<open>Calls on a calculator object, and the states any sequence of calls can reach.\<close>

datatype asc_call = AddRRIntervals "real list" | Calculate int | Reset

fun asc_step ::
  "(jsnum list \<Rightarrow> jsnum list) \<Rightarrow> AdvancedStatsCalculator \<Rightarrow> asc_call \<Rightarrow>
     AdvancedStatsCalculator" where
  "asc_step fft c (AddRRIntervals rrs) = addRRIntervals rrs c"
| "asc_step fft c (Calculate now) = snd (calculate fft now c)"
| "asc_step fft c Reset = reset c"

definition asc_run ::
  "(jsnum list \<Rightarrow> jsnum list) \<Rightarrow> asc_call list \<Rightarrow> AdvancedStatsCalculator \<Rightarrow>
     AdvancedStatsCalculator" where
  "asc_run fft calls c = foldl (asc_step fft) c calls"



inductive asc_reachable ::
  "(jsnum list \<Rightarrow> jsnum list) \<Rightarrow> AdvancedStatsCalculator \<Rightarrow> bool"
  for fft :: "jsnum list \<Rightarrow> jsnum list" where
  asc_new: "asc_reachable fft AdvancedStatsCalculator_new"
| asc_after_call: "asc_reachable fft c \<Longrightarrow> asc_reachable fft (asc_step fft c call)"

section \<open>Session readiness (readiness.ts)\<close>

record PersonalBaseline =
  avgRmssd :: real
  avgRestingHR :: real
  avgSdnn :: real


text \<open>One entry of \<^verbatim>\<open>ReadinessResult.factors\<close>: \<^verbatim>\<open>{ value, contribution, label }\<close>.\<close>

record ReadinessFactor =
  factor_value :: real
  contribution :: jsnum
  factor_label :: string

record ReadinessFactors =
  factor_rmssd :: ReadinessFactor
  restingHR :: ReadinessFactor
  hrv :: ReadinessFactor

record ReadinessResult =
  score :: jsnum
  status :: string
  color :: string
  recommendation :: string
  factors :: ReadinessFactors

definition calculateReadiness ::
  "real SessionStats \<Rightarrow> AdvancedStats \<Rightarrow> PersonalBaseline \<Rightarrow> ReadinessResult" where
  "calculateReadiness stats advancedStats baseline =
     (let rmssdRatio = (if js_gt (pnn50 advancedStats) (Num 0)
                        then js_div (Num (rmssd stats)) (Num (avgRmssd baseline)) else Num 0);
          rmssdScore = Math_min (Num 100) (Math_max (Num 0) (js_mul rmssdRatio (Num 100)));
          rmssdContribution = js_mul rmssdScore (Num 0.40);
          hrRatio = (if avgHr stats > 0
                     then js_div (Num (avgRestingHR baseline)) (Num (avgHr stats)) else Num 0);
          hrScore = Math_min (Num 100) (Math_max (Num 0) (js_mul hrRatio (Num 100)));
          hrContribution = js_mul hrScore (Num 0.35);
          sdnnRatio = (if sdnn stats > 0
                       then js_div (Num (sdnn stats)) (Num (avgSdnn baseline)) else Num 0);
          sdnnScore = Math_min (Num 100) (Math_max (Num 0) (js_mul sdnnRatio (Num 100)));
          sdnnContribution = js_mul sdnnScore (Num 0.25);
          totalScore = Math_round (js_add (js_add rmssdContribution hrContribution) sdnnContribution);
          (status_v, color_v, recommendation_v) =
            (if js_ge totalScore (Num 80)
             then (''excellent'', ''#22c55e'',
                   ''Great recovery! You're ready for high-intensity training.'')
             else if js_ge totalScore (Num 60)
             then (''good'', ''#84cc16'', ''Good recovery. Normal training is recommended.'')
             else if js_ge totalScore (Num 40)
             then (''fair'', ''#eab308'', ''Moderate recovery. Consider lighter training today.'')
             else (''poor'', ''#ef4444'',
                   ''Low recovery detected. Rest or very light activity recommended.''))
      in \<lparr>score = totalScore,
          status = status_v,
          color = color_v,
          recommendation = recommendation_v,
          factors =
            \<lparr>factor_rmssd =
               \<lparr>factor_value = rmssd stats,
                contribution = Math_round rmssdContribution,
                factor_label = (if js_ge rmssdScore (Num 100) then ''Above baseline''
                                else if js_ge rmssdScore (Num 70) then ''Near baseline''
                                else ''Below baseline'')\<rparr>,
             restingHR =
               \<lparr>factor_value = avgHr stats,
                contribution = Math_round hrContribution,
                factor_label = (if js_ge hrScore (Num 100) then ''Below baseline''
                                else if js_ge hrScore (Num 70) then ''Near baseline''
                                else ''Above baseline'')\<rparr>,
             hrv =
               \<lparr>factor_value = sdnn stats,
                contribution = Math_round sdnnContribution,
                factor_label = (if js_ge sdnnScore (Num 100) then ''Above baseline''
                                else if js_ge sdnnScore (Num 70) then ''Near baseline''
                                else ''Below baseline'')\<rparr>\<rparr>\<rparr>)"

section \<open>Recovery score (recovery.ts)\<close>

text \<open>
  The persisted entities of storage.ts. Of \<^verbatim>\<open>Session\<close>, the fields \<^verbatim>\<open>hrData\<close>,
  \<^verbatim>\<open>rrIntervals\<close> and \<^verbatim>\<open>testType\<close> are read by none of the functions below and are
  left out, as is the optional \<^verbatim>\<open>id\<close> of \<^verbatim>\<open>MorningTestResult\<close>. Timestamps are
  integers (milliseconds since the epoch).
\<close>

record Session =
  session_id :: string
  startTime :: int
  endTime :: int
  stats :: "real SessionStats"
  advancedStats :: AdvancedStats

record MorningTestResult =
  timestamp :: int
  lyingAvgHr :: real
  standingAvgHr :: real
  hrDelta :: real
  lyingRMSSD :: real
  standingRMSSD :: real
  readinessScore :: real

record RecoveryFactors =
  hrvBaseline :: jsnum
  restingHrTrend :: jsnum
  stressHistory :: jsnum
  consistency :: jsnum

record RecoveryData =
  recovery_score :: jsnum
  zone :: string
  recovery_color :: string
  label :: string
  recovery_factors :: RecoveryFactors

text \<open>\<^verbatim>\<open>new Set(xs).size\<close>\<close>

definition Set_size :: "'a list \<Rightarrow> nat" where
  "Set_size xs = length (remdups xs)"

text \<open>
  \<^verbatim>\<open>calculateRecoveryScore(sessions, morningTests, days)\<close>. The clock value that
  \<^verbatim>\<open>Date.now()\<close> returns is the parameter \<open>now\<close>; \<^verbatim>\<open>new Date(t).toDateString()\<close>, the
  calendar date of a timestamp in the time zone of the host, is the parameter
  \<open>toDateString\<close>. \<open>days\<close> is an integer. The four numbered blocks of the function body
  are four definitions, each over the variables the block reads.
\<close>

text \<open>1. HRV baseline comparison: recent RMSSD and SDNN against the mean over all sessions.\<close>

definition recovery_hrvScore ::
  "Session list \<Rightarrow> Session list \<Rightarrow> MorningTestResult list \<Rightarrow> real" where
  "recovery_hrvScore sessions recentSessions recentTests =
     (let allRmssd = filter (\<lambda>v. v > 0) (map (\<lambda>s. rmssd (stats s)) sessions);
          allSdnn = filter (\<lambda>v. v > 0) (map (\<lambda>s. sdnn (stats s)) sessions);
          baselineRmssd = (if length allRmssd > 0
                           then reduce_sum allRmssd / real (length allRmssd) else 40);
          baselineSdnn = (if length allSdnn > 0
                          then reduce_sum allSdnn / real (length allSdnn) else 50);
          recentRmssd =
            (if length recentSessions > 0
             then reduce_sum (map (\<lambda>s. rmssd (stats s)) recentSessions)
                    / real (length recentSessions)
             else (if length recentTests > 0
                   then reduce_sum (map lyingRMSSD recentTests) / real (length recentTests)
                   else 0));
          recentSdnn =
            (if length recentSessions > 0
             then reduce_sum (map (\<lambda>s. sdnn (stats s)) recentSessions)
                    / real (length recentSessions)
             else 0);
          rmssdRatio = (if baselineRmssd > 0 then min (recentRmssd / baselineRmssd) 1.5 else 0);
          sdnnRatio = (if baselineSdnn > 0 then min (recentSdnn / baselineSdnn) 1.5 else 0)
      in min 25 (round_real (((rmssdRatio * 0.6 + sdnnRatio * 0.4) / 1.5) * 25)))"

text \<open>
  2. Resting HR trend. The baseline divides by the number of sessions with a positive
  \<open>avgHr\<close>, which is 0 when there are sessions and none has one.
\<close>

definition recovery_hrScore ::
  "Session list \<Rightarrow> Session list \<Rightarrow> MorningTestResult list \<Rightarrow> jsnum" where
  "recovery_hrScore sessions recentSessions recentTests =
     (let recentHrs = filter (\<lambda>v. v > 0) (map (\<lambda>s. avgHr (stats s)) recentSessions);
          morningHrs = filter (\<lambda>v. v > 0) (map lyingAvgHr recentTests);
          allRecentHr = recentHrs @ morningHrs;
          avgRecentHr = (if length allRecentHr > 0
                         then reduce_sum allRecentHr / real (length allRecentHr) else 70);
          baselineHr =
            (if length sessions > 0
             then js_div
                    (Num (reduce_sum (filter (\<lambda>v. v > 0) (map (\<lambda>s. avgHr (stats s)) sessions))))
                    (Num (real (length (filter (\<lambda>s. avgHr (stats s) > 0) sessions))))
             else Num 70);
          hrRatio = (if avgRecentHr > 0
                     then Math_min (js_div baselineHr (Num avgRecentHr)) (Num 1.3) else Num 0)
      in Math_min (Num 25) (Math_round (js_mul (js_div hrRatio (Num 1.3)) (Num 25))))"

text \<open>3. Stress history.\<close>

definition recovery_stressScore :: "Session list \<Rightarrow> jsnum" where
  "recovery_stressScore recentSessions =
     (let recentStress = filter (\<lambda>v. js_gt v (Num 0))
                           (map (\<lambda>s. stressIndex (advancedStats s)) recentSessions)
      in if length recentStress > 0
         then (let avgStress = js_div (js_reduce_sum recentStress)
                                 (Num (real (length recentStress)))
               in Math_min (Num 25) (Math_max (Num 0) (Math_round
                    (js_mul (Num 25)
                       (js_sub (Num 1) (Math_min (js_div avgStress (Num 400)) (Num 1)))))))
         else Num 20)"

text \<open>4. Session consistency.\<close>

definition recovery_consistencyScore ::
  "(int \<Rightarrow> 'd) \<Rightarrow> Session list \<Rightarrow> MorningTestResult list \<Rightarrow> int \<Rightarrow> jsnum" where
  "recovery_consistencyScore toDateString recentSessions recentTests days =
     (let uniqueDays = Set_size (map (\<lambda>s. toDateString (startTime s)) recentSessions);
          testDays = Set_size (map (\<lambda>t. toDateString (timestamp t)) recentTests);
          totalActiveDays = min (int (uniqueDays + testDays)) days;
          consistencyRatio = js_div (Num (real_of_int totalActiveDays))
                                    (Num (real_of_int (min days 7)))
      in Math_min (Num 25) (Math_round (js_mul consistencyRatio (Num 25))))"

definition recovery_zone :: "jsnum \<Rightarrow> string \<times> string \<times> string" where
  "recovery_zone totalScore =
     (if js_ge totalScore (Num 67) then (''good'', ''#22c55e'', ''Good Recovery'')
      else if js_ge totalScore (Num 34) then (''moderate'', ''#eab308'', ''Moderate'')
      else (''poor'', ''#ef4444'', ''Poor Recovery''))"

definition no_data :: RecoveryData where
  "no_data =
     \<lparr>recovery_score = Num 0, zone = ''poor'', recovery_color = ''#ef4444'', label = ''No Data'',
      recovery_factors = \<lparr>hrvBaseline = Num 0, restingHrTrend = Num 0,
                          stressHistory = Num 0, consistency = Num 0\<rparr>\<rparr>"

definition calculateRecoveryScore ::
  "int \<Rightarrow> (int \<Rightarrow> 'd) \<Rightarrow> Session list \<Rightarrow> MorningTestResult list \<Rightarrow> int \<Rightarrow> RecoveryData" where
  "calculateRecoveryScore now toDateString sessions morningTests days =
     (let cutoff = now - days * 86400000;
          recentSessions = filter (\<lambda>s. startTime s \<ge> cutoff) sessions;
          recentTests = filter (\<lambda>t. timestamp t \<ge> cutoff) morningTests
      in if length recentSessions = 0 \<and> length recentTests = 0
         then no_data
         else
          (let hrvScore = recovery_hrvScore sessions recentSessions recentTests;
               hrScore = recovery_hrScore sessions recentSessions recentTests;
               stressScore = recovery_stressScore recentSessions;
               consistencyScore =
                 recovery_consistencyScore toDateString recentSessions recentTests days;
               totalScore = Math_min (Num 100)
                 (js_add (js_add (js_add (Num hrvScore) hrScore) stressScore) consistencyScore)
           in (case recovery_zone totalScore of (zone_v, color_v, label_v) \<Rightarrow>
                \<lparr>recovery_score = totalScore, zone = zone_v, recovery_color = color_v,
                 label = label_v,
                 recovery_factors = \<lparr>hrvBaseline = Num hrvScore, restingHrTrend = hrScore,
                                     stressHistory = stressScore,
                                     consistency = consistencyScore\<rparr>\<rparr>)))"

section \<open>Trend aggregator (recovery.ts)\<close>

record 'l TrendPoint =
  date :: 'l
  point_timestamp :: int
  point_rmssd :: real
  point_sdnn :: real
  stressScore :: jsnum
  recoveryScore :: jsnum
  point_avgHr :: real

text \<open>
  \<^verbatim>\<open>byDate\<close> is a \<^verbatim>\<open>Map\<close>: its keys in insertion order, each with the sessions and
  the tests of that date.
\<close>

fun byDate_add_session ::
  "'l \<Rightarrow> Session \<Rightarrow> ('l \<times> Session list \<times> MorningTestResult list) list \<Rightarrow>
     ('l \<times> Session list \<times> MorningTestResult list) list" where
  "byDate_add_session d s [] = [(d, [s], [])]"
| "byDate_add_session d s ((d', ss, ts) # rest) =
     (if d' = d then (d', ss @ [s], ts) # rest else (d', ss, ts) # byDate_add_session d s rest)"

fun byDate_add_test ::
  "'l \<Rightarrow> MorningTestResult \<Rightarrow> ('l \<times> Session list \<times> MorningTestResult list) list \<Rightarrow>
     ('l \<times> Session list \<times> MorningTestResult list) list" where
  "byDate_add_test d t [] = [(d, [], [t])]"
| "byDate_add_test d t ((d', ss, ts) # rest) =
     (if d' = d then (d', ss, ts @ [t]) # rest else (d', ss, ts) # byDate_add_test d t rest)"

text \<open>\<^verbatim>\<open>ss[0]?.startTime ?? ts[0]?.timestamp ?? 0\<close>\<close>

definition first_time :: "Session list \<Rightarrow> MorningTestResult list \<Rightarrow> int" where
  "first_time ss ts =
     (case ss of
        s # _ \<Rightarrow> startTime s
      | [] \<Rightarrow> (case ts of t # _ \<Rightarrow> timestamp t | [] \<Rightarrow> 0))"

text \<open>
  \<^verbatim>\<open>buildTrendData(sessions, morningTests, days)\<close>. \<open>now\<close> is the clock value read
  at the start; \<open>clock i\<close> is the clock value read by the recovery calculation made for
  point \<open>i\<close>; \<open>toLocaleDateString\<close> is the short date (month and day) used to group, and
  \<open>toDateString\<close> the calendar date used inside the recovery calculation. The sort of the
  entries by first time is stable, as \<^verbatim>\<open>Array.prototype.sort\<close> is.
\<close>

definition buildTrendData ::
  "int \<Rightarrow> (nat \<Rightarrow> int) \<Rightarrow> (int \<Rightarrow> 'l) \<Rightarrow> (int \<Rightarrow> 'd) \<Rightarrow>
     Session list \<Rightarrow> MorningTestResult list \<Rightarrow> int \<Rightarrow> 'l TrendPoint list" where
  "buildTrendData now clock toLocaleDateString toDateString sessions morningTests days =
     (let cutoff = now - days * 86400000;
          byDate1 = foldl (\<lambda>m s. if startTime s < cutoff then m
                                  else byDate_add_session (toLocaleDateString (startTime s)) s m)
                          [] sessions;
          byDate2 = foldl (\<lambda>m t. if timestamp t < cutoff then m
                                  else byDate_add_test (toLocaleDateString (timestamp t)) t m)
                          byDate1 morningTests;
          entries = sort_key (\<lambda>(d, ss, ts). first_time ss ts) byDate2
      in map (\<lambda>(i, (d, ss, ts)).
           (let dayRecovery = calculateRecoveryScore (clock i) toDateString sessions morningTests 1
            in \<lparr>date = d,
                point_timestamp = first_time ss ts,
                point_rmssd =
                  (if length ss > 0
                   then round_real (reduce_sum (map (\<lambda>s. rmssd (stats s)) ss) / real (length ss) * 10) / 10
                   else (if length ts > 0
                         then round_real (reduce_sum (map lyingRMSSD ts) / real (length ts) * 10) / 10
                         else 0)),
                point_sdnn =
                  (if length ss > 0
                   then round_real (reduce_sum (map (\<lambda>s. sdnn (stats s)) ss) / real (length ss) * 10) / 10
                   else 0),
                stressScore =
                  (if length ss > 0
                   then Math_round (js_div (js_reduce_sum (map (\<lambda>s. stressIndex (advancedStats s)) ss))
                                           (Num (real (length ss))))
                   else Num 0),
                recoveryScore = recovery_score dayRecovery,
                point_avgHr =
                  (if length ss > 0
                   then round_real (reduce_sum (map (\<lambda>s. avgHr (stats s)) ss) / real (length ss))
                   else (if length ts > 0
                         then round_real (reduce_sum (map lyingAvgHr ts) / real (length ts))
                         else 0))\<rparr>))
           (enumerate 0 entries))"

text \<open>
  The consistency sub-score as the specification words it: the number of distinct
  calendar days with a session or a test in the window, capped at \<open>days\<close>, over
  \<open>min days 7\<close>, scaled to 25, rounded and capped at 25.
\<close>

definition spec_consistency ::
  "int \<Rightarrow> (int \<Rightarrow> 'd) \<Rightarrow> Session list \<Rightarrow> MorningTestResult list \<Rightarrow> int \<Rightarrow> real" where
  "spec_consistency now toDateString sessions morningTests days =
     (let cutoff = now - days * 86400000;
          activeDays = remdups
            (map (\<lambda>s. toDateString (startTime s)) (filter (\<lambda>s. startTime s \<ge> cutoff) sessions) @
             map (\<lambda>t. toDateString (timestamp t)) (filter (\<lambda>t. timestamp t \<ge> cutoff) morningTests))
      in min 25 (round_real (real_of_int (min (int (length activeDays)) days)
                              / real_of_int (min days 7) * 25)))"

text \<open>The calendar date in UTC, as a day number: one instance of \<^verbatim>\<open>toDateString\<close>.\<close>

definition utc_day :: "int \<Rightarrow> int" where
  "utc_day t = t div 86400000"

section \<open>Trend direction (recovery.ts)\<close>

text \<open>\<^verbatim>\<open>a || b\<close> on numbers: 0 and NaN are falsy.\<close>

definition js_or :: "jsnum \<Rightarrow> jsnum \<Rightarrow> jsnum" where
  "js_or a b = (if a = NaN \<or> a = Num 0 then b else a)"

text \<open>The local \<^verbatim>\<open>change\<close> of \<^verbatim>\<open>getTrendDirection\<close>, computed once the length check has passed.\<close>

definition trend_change :: "real list \<Rightarrow> jsnum" where
  "trend_change values =
     (let half = length values div 2;
          firstHalf = take half values;
          secondHalf = drop half values;
          avg1 = f_div (f_reduce_sum (map Num firstHalf)) (Num (real (length firstHalf)));
          avg2 = f_div (f_reduce_sum (map Num secondHalf)) (Num (real (length secondHalf)))
      in f_mul (f_div (f_sub avg2 avg1) (js_or avg1 (Num 1))) (Num 100))"

definition getTrendDirection :: "real list \<Rightarrow> string" where
  "getTrendDirection values =
     (if length values < 2 then ''stable''
      else (let change = trend_change values
            in if js_gt change (Num 5) then ''improving''
               else if js_lt change (Num (- 5)) then ''declining''
               else ''stable''))"

section \<open>Reachable states, reference definitions and sample data\<close>


text \<open>
  The two statistics as the specification words them, in exact arithmetic: the population
  standard deviation (variance over N, not N - 1) and the root mean square of the
  successive differences.
\<close>

definition spec_mean :: "real list \<Rightarrow> real" where
  "spec_mean xs = sum_list xs / real (length xs)"

definition spec_population_sd :: "real list \<Rightarrow> real" where
  "spec_population_sd xs =
     sqrt ((\<Sum>x\<leftarrow>xs. (x - spec_mean xs)\<^sup>2) / real (length xs))"

definition spec_rms_successive_diff :: "real list \<Rightarrow> real" where
  "spec_rms_successive_diff xs =
     sqrt ((\<Sum>i = 1..<length xs. (xs ! i - xs ! (i - 1))\<^sup>2) / real (length xs - 1))"

text \<open>
  The same two statistics with every operation rounded to a double and the sums taken
  from left to right.
\<close>

definition double_mean :: "real list \<Rightarrow> jsnum" where
  "double_mean xs = f_div (f_reduce_sum (map Num xs)) (Num (real (length xs)))"

definition double_population_sd :: "real list \<Rightarrow> jsnum" where
  "double_population_sd xs =
     Math_sqrt (f_div (f_reduce_sum (map (\<lambda>x. Math_pow2 (f_sub (Num x) (double_mean xs))) xs))
                      (Num (real (length xs))))"


text \<open>
  Eighteen whole-millisecond intervals whose exact population standard deviation is 15.5.
\<close>

definition half_sd_series :: "real list" where
  "half_sd_series = [609, 638, 635, 634, 636, 609, 618, 660, 657, 614, 629, 627, 631, 636, 627,
                     610, 600, 631]"

text \<open>
  Calls that leave the throttle window opened at time \<open>t\<close> untouched: any
  \<^verbatim>\<open>addRRIntervals\<close>, and a \<^verbatim>\<open>calculate\<close> whose clock reads at most 5000 ms after \<open>t\<close>.
\<close>

fun call_within_window :: "int \<Rightarrow> asc_call \<Rightarrow> bool" where
  "call_within_window t (AddRRIntervals rrs) = True"
| "call_within_window t (Calculate t') = (t' - t \<le> 5000)"
| "call_within_window t Reset = False"

fun intervals_added :: "asc_call \<Rightarrow> real list" where
  "intervals_added (AddRRIntervals rrs) = rrs"
| "intervals_added (Calculate t') = []"
| "intervals_added Reset = []"

text \<open>A concrete transform, for instances of the theorems below.\<close>

definition sample_fft :: "jsnum list \<Rightarrow> jsnum list" where
  "sample_fft input = concat (map (\<lambda>x. [x, Num 0]) input)"

text \<open>
  The histogram as the specification words it, in exact arithmetic: every interval goes to
  the nearest multiple of 50 ms, and a bin holds the intervals that go to its centre; and
  the stress index of the specification for a modal bin \<open>mode\<close>.
\<close>

definition spec_bin_center :: "real \<Rightarrow> int" where
  "spec_bin_center x = round (x / 50) * 50"

definition spec_bin_count :: "real list \<Rightarrow> int \<Rightarrow> nat" where
  "spec_bin_count rr b = length (filter (\<lambda>x. spec_bin_center x = b) rr)"

definition spec_stress_index :: "real list \<Rightarrow> int \<Rightarrow> real" where
  "spec_stress_index rr mode =
     round_real ((real (spec_bin_count rr mode) / real (length rr) * 100) /
                 (2 * (real_of_int mode / 1000) * ((Max (set rr) - Min (set rr)) / 1000)))"




text \<open>Fifteen intervals of 800 ms followed by fifteen of 900 ms.\<close>

definition tie_series :: "real list" where
  "tie_series = [800, 800, 800, 800, 800, 800, 800, 800, 800, 800, 800, 800, 800, 800, 800,
                 900, 900, 900, 900, 900, 900, 900, 900, 900, 900, 900, 900, 900, 900, 900]"

text \<open>
  Four values near the top of the double range: the second half lies 50 per cent above the
  first, and each half sums to more than the largest double.
\<close>

definition overflow_series :: "real list" where
  "overflow_series = [2 ^ 1023, 2 ^ 1023, 3 * 2 ^ 1022, 3 * 2 ^ 1022]"

text \<open>Concrete readiness inputs: good metrics, with and without RR data behind them.\<close>

definition sample_stats :: "real SessionStats" where
  "sample_stats = \<lparr>minHr = 55, maxHr = 65, avgHr = 60, sdnn = 60, rmssd = 50, duration = 300\<rparr>"

definition sample_advanced :: AdvancedStats where
  "sample_advanced = \<lparr>lf = Num 100, hf = Num 200, lfHfRatio = Num 0.5, respirationRate = Num 14,
                       pnn50 = Num 25, stressIndex = Num 20\<rparr>"


text \<open>A stored session and a stored morning test at a given time, for concrete instances.\<close>

definition sample_session :: "int \<Rightarrow> Session" where
  "sample_session t =
     \<lparr>session_id = ''session'', startTime = t, endTime = t + 300000,
      stats = sample_stats, advancedStats = sample_advanced\<rparr>"

definition sample_test :: "int \<Rightarrow> MorningTestResult" where
  "sample_test t =
     \<lparr>timestamp = t, lyingAvgHr = 58, standingAvgHr = 72, hrDelta = 14,
      lyingRMSSD = 45, standingRMSSD = 30, readinessScore = 70\<rparr>"

text \<open>Two baselines whose RMSSD is not positive.\<close>

definition negative_baseline :: PersonalBaseline where
  "negative_baseline = \<lparr>avgRmssd = - 40, avgRestingHR = 65, avgSdnn = 50\<rparr>"

definition zero_baseline :: PersonalBaseline where
  "zero_baseline = \<lparr>avgRmssd = 0, avgRestingHR = 65, avgSdnn = 50\<rparr>"

section \<open>Properties of the rounding to doubles\<close>

lemma rhe_bounds: "\<bar>of_int (round_half_even x) - x\<bar> \<le> 1 / 2"
  unfolding round_half_even_def Let_def by (auto simp: abs_if) linarith+

lemma rhe_of_int [simp]: "round_half_even (of_int n) = n"
  by (simp add: round_half_even_def)

lemma rhe_near:
  assumes "\<bar>x - of_int n\<bar> < 1 / 2"
  shows "round_half_even x = n"
proof -
  have "\<bar>of_int (round_half_even x) - of_int n :: real\<bar> < 1"
    using rhe_bounds [of x] assms by linarith
  then have "\<bar>round_half_even x - n\<bar> < 1"
    by (metis of_int_diff of_int_abs of_int_less_1_iff)
  then show ?thesis by linarith
qed

lemma two_powr_int: "2 powr (real_of_int k) = (2::real) powi k"
  by (simp add: powr_real_of_int')

lemma floor_log2_eqI:
  assumes "2 powi e \<le> \<bar>x\<bar>" "\<bar>x\<bar> < 2 powi (e + 1)"
  shows "\<lfloor>log 2 \<bar>x\<bar>\<rfloor> = e"
proof -
  have "(0::real) < 2 powi e" by simp
  with assms(1) have pos: "0 < \<bar>x\<bar>" by linarith
  have "2 powr (real_of_int e) \<le> \<bar>x\<bar>" "\<bar>x\<bar> < 2 powr (real_of_int (e + 1))"
    using assms unfolding two_powr_int by simp_all
  then show ?thesis
    using pos by (subst floor_log_eq_powr_iff) simp_all
qed

lemma ulp_exponent_normal:
  assumes "2 powi e \<le> \<bar>x\<bar>" "\<bar>x\<bar> < 2 powi (e + 1)" "- 1022 \<le> e"
  shows "ulp_exponent x = e - 52"
  using floor_log2_eqI [OF assms(1,2)] assms(3) by (simp add: ulp_exponent_def)

lemma powi_neg_nat: "(2::real) powi (- int k) = 1 / 2 ^ k"
  by (simp add: power_int_minus field_simps)

lemma rhe_tie:
  assumes "even n" "\<bar>x - of_int n\<bar> = 1 / 2"
  shows "round_half_even x = n"
proof -
  consider "x = of_int n + 1 / 2" | "x = of_int n - 1 / 2"
    using assms(2) by (auto simp: abs_if split: if_splits)
  then show ?thesis
  proof cases
    case 1
    then have fl: "\<lfloor>x\<rfloor> = n" by (intro floor_unique) simp_all
    show ?thesis using assms(1) 1 by (simp add: round_half_even_def fl)
  next
    case 2
    then have fl: "\<lfloor>x\<rfloor> = n - 1" by (intro floor_unique) simp_all
    have "x - of_int (n - 1) = 1 / 2" using 2 by simp
    moreover have "odd (n - 1)" using assms(1) by simp
    ultimately show ?thesis by (simp add: round_half_even_def fl Let_def)
  qed
qed

lemma fl_normal_core:
  fixes m q :: int
  assumes m: "2 ^ 52 < \<bar>m\<bar>" "\<bar>m\<bar> < 2 ^ 53"
    and q: "- 1074 \<le> q" "q \<le> 971"
    and near: "\<bar>x - of_int m * 2 powi q\<bar> \<le> 2 powi q / 2"
    and small: "\<bar>x\<bar> < 2 ^ 1024 - 2 ^ 970"
    and rounds: "round_half_even (x / 2 powi q) = m"
  shows "fl x = Num (of_int m * 2 powi q)"
proof -
  define u :: real where "u = 2 powi q"
  have u: "0 < u" by (simp add: u_def)
  note near' = near [folded u_def]
  have am: "(2::real) ^ 52 + 1 \<le> \<bar>of_int m\<bar>" "\<bar>of_int m :: real\<bar> \<le> 2 ^ 53 - 1"
  proof -
    from m have "2 ^ 52 + 1 \<le> \<bar>m\<bar>" "\<bar>m\<bar> \<le> 2 ^ 53 - 1" by simp_all
    then have "real_of_int (2 ^ 52 + 1) \<le> real_of_int \<bar>m\<bar>" "real_of_int \<bar>m\<bar> \<le> real_of_int (2 ^ 53 - 1)"
      by (simp_all only: of_int_le_iff)
    then show "(2::real) ^ 52 + 1 \<le> \<bar>of_int m\<bar>" "\<bar>of_int m :: real\<bar> \<le> 2 ^ 53 - 1"
      by simp_all
  qed
  have y: "\<bar>of_int m * u\<bar> = \<bar>of_int m\<bar> * u"
    using u by (simp add: abs_mult)
  have lo: "(2 ^ 52 + 1) * u \<le> \<bar>of_int m * u\<bar>"
    unfolding y using am(1) u by (intro mult_right_mono) simp_all
  have hi: "\<bar>of_int m * u\<bar> \<le> (2 ^ 53 - 1) * u"
    unfolding y using am(2) u by (intro mult_right_mono) simp_all
  have xlo: "2 ^ 52 * u + u / 2 \<le> \<bar>x\<bar>"
  proof -
    have "(2 ^ 52 + 1) * u = 2 ^ 52 * u + u" by (simp only: distrib_right mult_1)
    with lo near' u show ?thesis by linarith
  qed
  have xhi: "\<bar>x\<bar> \<le> 2 ^ 53 * u - u / 2"
  proof -
    have "(2 ^ 53 - 1) * u = 2 ^ 53 * u - u" by (simp only: left_diff_distrib mult_1)
    with hi near' u show ?thesis by linarith
  qed
  have p52: "(2::real) powi (q + 52) = 2 ^ 52 * u" and p53: "(2::real) powi (q + 52 + 1) = 2 ^ 53 * u"
    by (simp_all add: power_int_add u_def)
  have e1: "2 powi (q + 52) \<le> \<bar>x\<bar>"
    unfolding p52 using xlo u by linarith
  have e2: "\<bar>x\<bar> < 2 powi (q + 52 + 1)"
    unfolding p53 using xhi u by linarith
  have ue: "ulp_exponent x = q"
    using ulp_exponent_normal [OF e1 e2] q by simp
  have "0 < 2 ^ 52 * u" using u by simp
  with xlo u have "0 < \<bar>x\<bar>" by linarith
  then have nz: "x \<noteq> 0" by simp
  from small have "\<not> \<bar>x\<bar> \<ge> 2 ^ 1024 - 2 ^ 970" by linarith
  then show ?thesis using nz ue rounds by (simp add: fl_def u_def)
qed

lemma fl_normalI:
  fixes m q :: int
  assumes m: "2 ^ 52 < \<bar>m\<bar>" "\<bar>m\<bar> < 2 ^ 53"
    and q: "- 1074 \<le> q" "q \<le> 971"
    and near: "\<bar>x - of_int m * 2 powi q\<bar> < 2 powi q / 2"
  shows "fl x = Num (of_int m * 2 powi q)"
proof -
  define u :: real where "u = 2 powi q"
  have u: "0 < u" by (simp add: u_def)
  note near' = near [folded u_def]
  have "\<bar>of_int m :: real\<bar> \<le> 2 ^ 53 - 1"
  proof -
    from m have "\<bar>m\<bar> \<le> 2 ^ 53 - 1" by simp
    then have "real_of_int \<bar>m\<bar> \<le> real_of_int (2 ^ 53 - 1)"
      by (simp only: of_int_le_iff)
    then show ?thesis by simp
  qed
  then have "\<bar>of_int m\<bar> * u \<le> (2 ^ 53 - 1) * u"
    using u by (intro mult_right_mono) simp_all
  moreover have "\<bar>of_int m * u\<bar> = \<bar>of_int m\<bar> * u"
    using u by (simp add: abs_mult)
  moreover have "(2 ^ 53 - 1) * u = 2 ^ 53 * u - u" by (simp only: left_diff_distrib mult_1)
  ultimately have xhi: "\<bar>x\<bar> < 2 ^ 53 * u - u / 2"
    using near' u by linarith
  have "2 ^ 53 * u - u / 2 \<le> (2::real) ^ 1024 - 2 ^ 970"
  proof -
    have "u \<le> 2 powi 971" unfolding u_def using q by (intro power_int_increasing) simp_all
    then have "u \<le> 2 ^ 971" by simp
    moreover have "(2::real) ^ 1024 - 2 ^ 970 = (2 ^ 53 - 1 / 2) * 2 ^ 971" by simp
    moreover have "2 ^ 53 * u - u / 2 = (2 ^ 53 - 1 / 2) * u" by (simp add: algebra_simps)
    ultimately show ?thesis by (simp add: mult_left_mono)
  qed
  with xhi have small: "\<bar>x\<bar> < 2 ^ 1024 - 2 ^ 970" by linarith
  have "\<bar>x / u - of_int m\<bar> < 1 / 2"
  proof -
    have "x / u - of_int m = (x - of_int m * u) / u" using u by (simp add: field_simps)
    then have "\<bar>x / u - of_int m\<bar> = \<bar>x - of_int m * u\<bar> / u" using u by (simp add: abs_divide)
    also have "\<dots> < (u / 2) / u" using near' u by (simp add: divide_strict_right_mono)
    also have "\<dots> = 1 / 2" using u by simp
    finally show ?thesis .
  qed
  then have "round_half_even (x / u) = m" by (rule rhe_near)
  then show ?thesis
    using near small unfolding u_def by (intro fl_normal_core [OF m q]) simp_all
qed

lemma fl_tieI:
  fixes m q :: int
  assumes m: "2 ^ 52 < \<bar>m\<bar>" "\<bar>m\<bar> < 2 ^ 53" "even m"
    and q: "- 1074 \<le> q" "q \<le> 0"
    and near: "\<bar>x - of_int m * 2 powi q\<bar> = 2 powi q / 2"
  shows "fl x = Num (of_int m * 2 powi q)"
proof -
  define u :: real where "u = 2 powi q"
  have u: "0 < u" by (simp add: u_def)
  note near' = near [folded u_def]
  have u1: "u \<le> 1"
  proof -
    have "u \<le> 2 powi 0" unfolding u_def using q by (intro power_int_increasing) simp_all
    then show ?thesis by simp
  qed
  have "\<bar>of_int m :: real\<bar> \<le> 2 ^ 53"
  proof -
    from m have "\<bar>m\<bar> \<le> 2 ^ 53" by simp
    then have "real_of_int \<bar>m\<bar> \<le> real_of_int (2 ^ 53)"
      by (simp only: of_int_le_iff)
    then show ?thesis by simp
  qed
  then have "\<bar>of_int m\<bar> * u \<le> 2 ^ 53 * 1"
    using u u1 by (intro mult_mono) simp_all
  moreover have "\<bar>of_int m * u\<bar> = \<bar>of_int m\<bar> * u"
    using u by (simp add: abs_mult)
  ultimately have "\<bar>x\<bar> \<le> 2 ^ 53 + 1"
    using near' u u1 by linarith
  moreover have "(2::real) ^ 53 + 1 < 2 ^ 1024 - 2 ^ 970" by simp
  ultimately have small: "\<bar>x\<bar> < 2 ^ 1024 - 2 ^ 970" by linarith
  have "\<bar>x / u - of_int m\<bar> = 1 / 2"
  proof -
    have "x / u - of_int m = (x - of_int m * u) / u" using u by (simp add: field_simps)
    then have "\<bar>x / u - of_int m\<bar> = \<bar>x - of_int m * u\<bar> / u" using u by (simp add: abs_divide)
    also have "\<dots> = (u / 2) / u" using near' by simp
    also have "\<dots> = 1 / 2" using u by simp
    finally show ?thesis .
  qed
  with m(3) have "round_half_even (x / u) = m" by (rule rhe_tie)
  moreover have "q \<le> 971" using q by simp
  ultimately show ?thesis
    using near small q(1) unfolding u_def by (intro fl_normal_core [OF m(1,2)]) simp_all
qed

lemma floor_log2_bounds:
  assumes "x \<noteq> 0"
  shows "2 powi \<lfloor>log 2 \<bar>x\<bar>\<rfloor> \<le> \<bar>x\<bar>" "\<bar>x\<bar> < 2 powi (\<lfloor>log 2 \<bar>x\<bar>\<rfloor> + 1)"
proof -
  from assms have pos: "0 < \<bar>x\<bar>" by simp
  have "\<lfloor>log 2 \<bar>x\<bar>\<rfloor> = \<lfloor>log 2 \<bar>x\<bar>\<rfloor>" ..
  then have "2 powr (real_of_int \<lfloor>log 2 \<bar>x\<bar>\<rfloor>) \<le> \<bar>x\<bar> \<and>
             \<bar>x\<bar> < 2 powr (real_of_int (\<lfloor>log 2 \<bar>x\<bar>\<rfloor> + 1))"
    using pos by (subst (asm) floor_log_eq_powr_iff) simp_all
  then show "2 powi \<lfloor>log 2 \<bar>x\<bar>\<rfloor> \<le> \<bar>x\<bar>" "\<bar>x\<bar> < 2 powi (\<lfloor>log 2 \<bar>x\<bar>\<rfloor> + 1)"
    unfolding two_powr_int by simp_all
qed

lemma abs_int_bound_real:
  fixes m :: int
  assumes "\<bar>m\<bar> < 2 ^ 53"
  shows "\<bar>real_of_int m\<bar> \<le> 2 ^ 53 - 1"
proof -
  from assms have "\<bar>m\<bar> \<le> 2 ^ 53 - 1" by simp
  then have "real_of_int \<bar>m\<bar> \<le> real_of_int (2 ^ 53 - 1)" by (simp only: of_int_le_iff)
  then show ?thesis by simp
qed

lemma double_below_overflow:
  assumes "is_double x"
  shows "\<bar>x\<bar> < 2 ^ 1024 - 2 ^ 970"
proof -
  from assms obtain m q :: int where
    x: "x = of_int m * 2 powi q" and m: "\<bar>m\<bar> < 2 ^ 53" and q: "- 1074 \<le> q" "q \<le> 971"
    unfolding is_double_def by blast
  define u :: real where "u = 2 powi q"
  have u: "0 < u" by (simp add: u_def)
  have "u \<le> 2 powi 971" unfolding u_def using q by (intro power_int_increasing) simp_all
  then have u971: "u \<le> 2 ^ 971" by simp
  have "\<bar>x\<bar> = \<bar>of_int m\<bar> * u" using u by (simp add: x u_def abs_mult)
  also have "\<dots> \<le> (2 ^ 53 - 1) * u"
    using abs_int_bound_real [OF m] u by (intro mult_right_mono) simp_all
  also have "\<dots> \<le> (2 ^ 53 - 1) * 2 ^ 971"
    using u971 by (intro mult_left_mono) simp_all
  also have "\<dots> < (2::real) ^ 1024 - 2 ^ 970" by simp
  finally show ?thesis .
qed

lemma double_on_grid:
  assumes "is_double x" "x \<noteq> 0"
  shows "\<exists>n :: int. x = of_int n * 2 powi ulp_exponent x"
proof -
  from assms obtain m q :: int where
    x: "x = of_int m * 2 powi q" and m: "\<bar>m\<bar> < 2 ^ 53" and q: "- 1074 \<le> q" "q \<le> 971"
    unfolding is_double_def by blast
  define e where "e = \<lfloor>log 2 \<bar>x\<bar>\<rfloor>"
  define u where "u = ulp_exponent x"
  have u_def': "u = max e (- 1022) - 52" by (simp add: u_def e_def ulp_exponent_def)
  have lo: "2 powi e \<le> \<bar>x\<bar>" using floor_log2_bounds(1) [OF assms(2)] by (simp add: e_def)
  have "u \<le> q"
  proof (rule ccontr)
    assume "\<not> u \<le> q"
    then have uq: "q < u" by simp
    with q(1) u_def' have "e - 52 > q" by linarith
    then have e: "q + 53 \<le> e" by simp
    have "\<bar>x\<bar> = \<bar>of_int m\<bar> * 2 powi q" by (simp add: x abs_mult)
    also have "\<dots> \<le> (2 ^ 53 - 1) * 2 powi q"
      using abs_int_bound_real [OF m] by (intro mult_right_mono) simp_all
    also have "\<dots> < 2 ^ 53 * 2 powi q" by (simp add: mult_strict_right_mono)
    also have "\<dots> = 2 powi (q + 53)" by (simp add: power_int_add)
    also have "\<dots> \<le> 2 powi e" using e by (intro power_int_increasing) simp_all
    finally show False using lo by simp
  qed
  then obtain d :: nat where d: "q = u + int d"
    by (metis zle_iff_zadd)
  have "(2::real) powi q = 2 ^ d * 2 powi u"
    by (simp add: d power_int_add mult.commute)
  then have "x = of_int (m * 2 ^ d) * 2 powi u"
    by (simp add: x)
  then show ?thesis unfolding u_def by blast
qed

lemma fl_exact:
  assumes "is_double x"
  shows "fl x = Num x"
proof (cases "x = 0")
  case True
  then show ?thesis by (simp add: fl_def)
next
  case False
  from double_on_grid [OF assms False] obtain n :: int where
    n: "x = of_int n * 2 powi ulp_exponent x" by blast
  have "x / 2 powi ulp_exponent x = of_int n"
    by (subst n) simp
  then have "round_half_even (x / 2 powi ulp_exponent x) = n" by simp
  with n double_below_overflow [OF assms] False show ?thesis
    by (simp add: fl_def)
qed


lemma is_double_frac:
  fixes m :: int and k :: nat
  assumes "\<bar>m\<bar> < 2 ^ 53" "k \<le> 1074"
  shows "is_double (of_int m / 2 ^ k)"
  unfolding is_double_def using assms
  by (intro exI [of _ m] exI [of _ "- int k"]) (simp add: powi_neg_nat)

lemma is_double_pow2:
  fixes m :: int and k :: nat
  assumes "\<bar>m\<bar> < 2 ^ 53" "k \<le> 971"
  shows "is_double (of_int m * 2 ^ k)"
  unfolding is_double_def using assms
  by (intro exI [of _ m] exI [of _ "int k"]) simp

lemma fl_eq_exact:
  fixes m :: int and k :: nat
  assumes "x = y" "y = of_int m / 2 ^ k" "\<bar>m\<bar> < 2 ^ 53" "k \<le> 1074"
  shows "fl x = Num y"
  using fl_exact [OF is_double_frac [OF assms(3,4)]] assms(1,2) by simp

lemma fl_eq_inexact:
  fixes m :: int and k :: nat
  assumes "y = of_int m / 2 ^ k" "2 ^ 52 < \<bar>m\<bar>" "\<bar>m\<bar> < 2 ^ 53" "k \<le> 1074"
    and "\<bar>x - y\<bar> < 1 / 2 ^ (k + 1)"
  shows "fl x = Num y"
proof -
  have "\<bar>x - of_int m * 2 powi (- int k)\<bar> < 2 powi (- int k) / 2"
    using assms(5) by (simp add: powi_neg_nat assms(1))
  from fl_normalI [OF assms(2,3) _ _ this] assms(4)
  show ?thesis by (simp add: powi_neg_nat assms(1))
qed

lemma fl_eq_tie:
  fixes m :: int and k :: nat
  assumes "y = of_int m / 2 ^ k" "2 ^ 52 < \<bar>m\<bar>" "\<bar>m\<bar> < 2 ^ 53" "even m" "k \<le> 1074"
    and "\<bar>x - y\<bar> = 1 / 2 ^ (k + 1)"
  shows "fl x = Num y"
proof -
  have "\<bar>x - of_int m * 2 powi (- int k)\<bar> = 2 powi (- int k) / 2"
    using assms(6) by (simp add: powi_neg_nat assms(1))
  from fl_tieI [OF assms(2,3,4) _ _ this] assms(5)
  show ?thesis by (simp add: powi_neg_nat assms(1))
qed

lemma fl_sqrt_inexact:
  fixes m :: int and k :: nat
  assumes "y = of_int m / 2 ^ k" "2 ^ 52 < m" "m < 2 ^ 53" "k \<le> 1074"
    and lower: "(y - 1 / 2 ^ (k + 1))\<^sup>2 < a" and upper: "a < (y + 1 / 2 ^ (k + 1))\<^sup>2"
  shows "fl (sqrt a) = Num y"
proof -
  define h :: real where "h = 1 / 2 ^ (k + 1)"
  have h: "0 < h" by (simp add: h_def)
  have "(1::real) \<le> of_int m" using assms(2) by simp
  then have "1 / 2 ^ k \<le> y" unfolding assms(1) by (intro divide_right_mono) simp_all
  moreover have "h < 1 / 2 ^ k" by (simp add: h_def field_simps)
  ultimately have pos: "0 < y - h" by linarith
  from lower have "y - h < sqrt a"
    unfolding h_def [symmetric] by (rule real_less_rsqrt)
  moreover have "0 \<le> (y - 1 / 2 ^ (k + 1))\<^sup>2" by simp
  with lower have "0 \<le> a" by linarith
  then have "sqrt a < y + h"
    using upper pos h unfolding h_def [symmetric] by (intro real_less_lsqrt) simp_all
  ultimately have "\<bar>sqrt a - y\<bar> < 1 / 2 ^ (k + 1)"
    unfolding h_def by linarith
  with assms(1-4) show ?thesis
    by (intro fl_eq_inexact [where m = m and k = k]) simp_all
qed

lemma fl_sqrt_exact:
  fixes m :: int and k :: nat
  assumes "y\<^sup>2 = a" "0 \<le> y" "y = of_int m / 2 ^ k" "\<bar>m\<bar> < 2 ^ 53" "k \<le> 1074"
  shows "fl (sqrt a) = Num y"
proof -
  have "sqrt a = y" using assms(1,2) by (metis real_sqrt_abs abs_of_nonneg)
  with assms(3-5) show ?thesis by (intro fl_eq_exact [where m = m and k = k]) simp_all
qed

lemma fl_not_NaN [simp]: "fl x \<noteq> NaN"
  by (simp add: fl_def)

lemma fl_zero [simp]: "fl 0 = Num 0"
  by (simp add: fl_def)








subsection \<open>Evaluating the rounded operations\<close>

lemma f_add_exact:
  assumes "x + y = z" "z = of_int m / 2 ^ k" "\<bar>m\<bar> < 2 ^ 53" "k \<le> 1074"
  shows "f_add (Num x) (Num y) = Num z"
  unfolding f_add_def using fl_eq_exact [OF assms] by simp

lemma f_add_inexact:
  assumes "z = of_int m / 2 ^ k" "2 ^ 52 < \<bar>m\<bar>" "\<bar>m\<bar> < 2 ^ 53" "k \<le> 1074"
    and "\<bar>x + y - z\<bar> < 1 / 2 ^ (k + 1)"
  shows "f_add (Num x) (Num y) = Num z"
  unfolding f_add_def using fl_eq_inexact [OF assms] by simp

lemma f_sub_exact:
  assumes "x - y = z" "z = of_int m / 2 ^ k" "\<bar>m\<bar> < 2 ^ 53" "k \<le> 1074"
  shows "f_sub (Num x) (Num y) = Num z"
  unfolding f_sub_def using fl_eq_exact [OF assms] by simp

lemma f_sub_inexact:
  assumes "z = of_int m / 2 ^ k" "2 ^ 52 < \<bar>m\<bar>" "\<bar>m\<bar> < 2 ^ 53" "k \<le> 1074"
    and "\<bar>x - y - z\<bar> < 1 / 2 ^ (k + 1)"
  shows "f_sub (Num x) (Num y) = Num z"
  unfolding f_sub_def using fl_eq_inexact [OF assms] by simp

lemma f_mul_exact:
  assumes "x * y = z" "z = of_int m / 2 ^ k" "\<bar>m\<bar> < 2 ^ 53" "k \<le> 1074"
  shows "f_mul (Num x) (Num y) = Num z"
  unfolding f_mul_def using fl_eq_exact [OF assms] by simp

lemma f_mul_inexact:
  assumes "z = of_int m / 2 ^ k" "2 ^ 52 < \<bar>m\<bar>" "\<bar>m\<bar> < 2 ^ 53" "k \<le> 1074"
    and "\<bar>x * y - z\<bar> < 1 / 2 ^ (k + 1)"
  shows "f_mul (Num x) (Num y) = Num z"
  unfolding f_mul_def using fl_eq_inexact [OF assms] by simp

lemma f_div_exact:
  assumes "y \<noteq> 0" "x / y = z" "z = of_int m / 2 ^ k" "\<bar>m\<bar> < 2 ^ 53" "k \<le> 1074"
  shows "f_div (Num x) (Num y) = Num z"
  unfolding f_div_def using fl_eq_exact [OF assms(2-)] assms(1) by simp

lemma f_div_inexact:
  assumes "y \<noteq> 0" "z = of_int m / 2 ^ k" "2 ^ 52 < \<bar>m\<bar>" "\<bar>m\<bar> < 2 ^ 53" "k \<le> 1074"
    and "\<bar>x / y - z\<bar> < 1 / 2 ^ (k + 1)"
  shows "f_div (Num x) (Num y) = Num z"
  unfolding f_div_def using fl_eq_inexact [OF assms(2-)] assms(1) by simp


lemma Math_sqrt_inexact:
  assumes "y = of_int m / 2 ^ k" "2 ^ 52 < m" "m < 2 ^ 53" "k \<le> 1074"
    and "(y - 1 / 2 ^ (k + 1))\<^sup>2 < a" "a < (y + 1 / 2 ^ (k + 1))\<^sup>2"
  shows "Math_sqrt (Num a) = Num y"
proof -
  have "0 \<le> (y - 1 / 2 ^ (k + 1))\<^sup>2" by simp
  then have "\<not> a < 0" using assms(5) by linarith
  then show ?thesis using fl_sqrt_inexact [OF assms] by simp
qed

lemma f_add_tie:
  assumes "z = of_int m / 2 ^ k" "2 ^ 52 < \<bar>m\<bar>" "\<bar>m\<bar> < 2 ^ 53" "even m" "k \<le> 1074"
    and "\<bar>x + y - z\<bar> = 1 / 2 ^ (k + 1)"
  shows "f_add (Num x) (Num y) = Num z"
  unfolding f_add_def using fl_eq_tie [OF assms] by simp

lemma f_sub_tie:
  assumes "z = of_int m / 2 ^ k" "2 ^ 52 < \<bar>m\<bar>" "\<bar>m\<bar> < 2 ^ 53" "even m" "k \<le> 1074"
    and "\<bar>x - y - z\<bar> = 1 / 2 ^ (k + 1)"
  shows "f_sub (Num x) (Num y) = Num z"
  unfolding f_sub_def using fl_eq_tie [OF assms] by simp

lemma f_mul_tie:
  assumes "z = of_int m / 2 ^ k" "2 ^ 52 < \<bar>m\<bar>" "\<bar>m\<bar> < 2 ^ 53" "even m" "k \<le> 1074"
    and "\<bar>x * y - z\<bar> = 1 / 2 ^ (k + 1)"
  shows "f_mul (Num x) (Num y) = Num z"
  unfolding f_mul_def using fl_eq_tie [OF assms] by simp

lemma f_div_tie:
  assumes "y \<noteq> 0" "z = of_int m / 2 ^ k" "2 ^ 52 < \<bar>m\<bar>" "\<bar>m\<bar> < 2 ^ 53" "even m" "k \<le> 1074"
    and "\<bar>x / y - z\<bar> = 1 / 2 ^ (k + 1)"
  shows "f_div (Num x) (Num y) = Num z"
  unfolding f_div_def using fl_eq_tie [OF assms(2-)] assms(1) by simp

lemma Math_round_eqI:
  assumes "z = of_int n" "z - 1 / 2 \<le> x" "x < z + 1 / 2"
  shows "Math_round (Num x) = Num z"
proof -
  have "round x = n"
    unfolding round_def using assms by (intro floor_unique) simp_all
  then show ?thesis by (simp add: round_real_def assms(1))
qed

subsection \<open>Magnitudes of rounded results\<close>



lemma mag_ge_Inf [simp]: "mag_ge PInf c" "mag_ge NInf c"
  by (simp_all add: mag_ge_def)




section \<open>Properties of the Running Statistics Engine\<close>



lemma getStats_sdnn:
  "heartRates c \<noteq> [] \<Longrightarrow>
   sdnn (getStats now c) =
     (if length (sc_rrIntervals c) < 2 then Num 0
      else Math_round (double_population_sd (sc_rrIntervals c)))"
  by (cases "heartRates c")
     (auto simp: getStats_def Let_def double_population_sd_def double_mean_def)


lemma addReading_fresh:
  "addReading t hr (Some rr) StatsCalculator_new =
     \<lparr>heartRates = [hr], sc_rrIntervals = rr, sc_startTime = t\<rparr>"
  by (simp add: addReading_def StatsCalculator_new_def)



lemma double_population_sd_half: "double_population_sd half_sd_series = Num (8725724278030335 / 2 ^ 49)"
proof -
  have e1: "f_add (Num 0) (Num 609) = (Num 609)"
    by (rule f_add_exact [where m = 609 and k = 0]) simp_all
  have e2: "f_add (Num 609) (Num 638) = (Num 1247)"
    by (rule f_add_exact [where m = 1247 and k = 0]) simp_all
  have e3: "f_add (Num 1247) (Num 635) = (Num 1882)"
    by (rule f_add_exact [where m = 1882 and k = 0]) simp_all
  have e4: "f_add (Num 1882) (Num 634) = (Num 2516)"
    by (rule f_add_exact [where m = 2516 and k = 0]) simp_all
  have e5: "f_add (Num 2516) (Num 636) = (Num 3152)"
    by (rule f_add_exact [where m = 3152 and k = 0]) simp_all
  have e6: "f_add (Num 3152) (Num 609) = (Num 3761)"
    by (rule f_add_exact [where m = 3761 and k = 0]) simp_all
  have e7: "f_add (Num 3761) (Num 618) = (Num 4379)"
    by (rule f_add_exact [where m = 4379 and k = 0]) simp_all
  have e8: "f_add (Num 4379) (Num 660) = (Num 5039)"
    by (rule f_add_exact [where m = 5039 and k = 0]) simp_all
  have e9: "f_add (Num 5039) (Num 657) = (Num 5696)"
    by (rule f_add_exact [where m = 5696 and k = 0]) simp_all
  have e10: "f_add (Num 5696) (Num 614) = (Num 6310)"
    by (rule f_add_exact [where m = 6310 and k = 0]) simp_all
  have e11: "f_add (Num 6310) (Num 629) = (Num 6939)"
    by (rule f_add_exact [where m = 6939 and k = 0]) simp_all
  have e12: "f_add (Num 6939) (Num 627) = (Num 7566)"
    by (rule f_add_exact [where m = 7566 and k = 0]) simp_all
  have e13: "f_add (Num 7566) (Num 631) = (Num 8197)"
    by (rule f_add_exact [where m = 8197 and k = 0]) simp_all
  have e14: "f_add (Num 8197) (Num 636) = (Num 8833)"
    by (rule f_add_exact [where m = 8833 and k = 0]) simp_all
  have e15: "f_add (Num 8833) (Num 627) = (Num 9460)"
    by (rule f_add_exact [where m = 9460 and k = 0]) simp_all
  have e16: "f_add (Num 9460) (Num 610) = (Num 10070)"
    by (rule f_add_exact [where m = 10070 and k = 0]) simp_all
  have e17: "f_add (Num 10070) (Num 600) = (Num 10670)"
    by (rule f_add_exact [where m = 10670 and k = 0]) simp_all
  have e18: "f_add (Num 10670) (Num 631) = (Num 11301)"
    by (rule f_add_exact [where m = 11301 and k = 0]) simp_all
  have e19: "f_div (Num 11301) (Num 18) = (Num (5522480402442923 / 2 ^ 43))"
    by (rule f_div_inexact [where m = 5522480402442923 and k = 43]) simp_all
  have e20: "f_sub (Num 609) (Num (5522480402442923 / 2 ^ 43)) = (Num (- 5301112061384032 / 2 ^ 48))"
    by (rule f_sub_exact [where m = "- 5301112061384032" and k = 48]) simp_all
  have e21: "f_mul (Num (- 5301112061384032 / 2 ^ 48)) (Num (- 5301112061384032 / 2 ^ 48)) = (Num (6239850655587467 / 2 ^ 44))"
    by (rule f_mul_inexact [where m = 6239850655587467 and k = 44]) simp_all
  have e22: "f_sub (Num 638) (Num (5522480402442923 / 2 ^ 43)) = (Num (5723324526449984 / 2 ^ 49))"
    by (rule f_sub_exact [where m = 5723324526449984 and k = 49]) simp_all
  have e23: "f_mul (Num (5723324526449984 / 2 ^ 49)) (Num (5723324526449984 / 2 ^ 49)) = (Num (7273391585696828 / 2 ^ 46))"
    by (rule f_mul_inexact [where m = 7273391585696828 and k = 46]) simp_all
  have e24: "f_sub (Num 635) (Num (5522480402442923 / 2 ^ 43)) = (Num (8068949332372096 / 2 ^ 50))"
    by (rule f_sub_exact [where m = 8068949332372096 and k = 50]) simp_all
  have e25: "f_mul (Num (8068949332372096 / 2 ^ 50)) (Num (8068949332372096 / 2 ^ 50)) = (Num (7228433776916631 / 2 ^ 47))"
    by (rule f_mul_inexact [where m = 7228433776916631 and k = 47]) simp_all
  have e26: "f_sub (Num 634) (Num (5522480402442923 / 2 ^ 43)) = (Num (6943049425529472 / 2 ^ 50))"
    by (rule f_sub_exact [where m = 6943049425529472 and k = 50]) simp_all
  have e27: "f_mul (Num (6943049425529472 / 2 ^ 50)) (Num (6943049425529472 / 2 ^ 50)) = (Num (5351933932178935 / 2 ^ 47))"
    by (rule f_mul_inexact [where m = 5351933932178935 and k = 47]) simp_all
  have e28: "f_sub (Num 636) (Num (5522480402442923 / 2 ^ 43)) = (Num (4597424619607360 / 2 ^ 49))"
    by (rule f_sub_exact [where m = 4597424619607360 and k = 49]) simp_all
  have e29: "f_mul (Num (4597424619607360 / 2 ^ 49)) (Num (4597424619607360 / 2 ^ 49)) = (Num (4693204299182492 / 2 ^ 46))"
    by (rule f_mul_inexact [where m = 4693204299182492 and k = 46]) simp_all
  have e30: "f_sub (Num 618) (Num (5522480402442923 / 2 ^ 43)) = (Num (- 5535674541976256 / 2 ^ 49))"
    by (rule f_sub_exact [where m = "- 5535674541976256" and k = 49]) simp_all
  have e31: "f_mul (Num (- 5535674541976256 / 2 ^ 49)) (Num (- 5535674541976256 / 2 ^ 49)) = (Num (6804266624512508 / 2 ^ 46))"
    by (rule f_mul_inexact [where m = 6804266624512508 and k = 46]) simp_all
  have e32: "f_sub (Num 660) (Num (5522480402442923 / 2 ^ 43)) = (Num (4527055875429712 / 2 ^ 47))"
    by (rule f_sub_exact [where m = 4527055875429712 and k = 47]) simp_all
  have e33: "f_mul (Num (4527055875429712 / 2 ^ 47)) (Num (4527055875429712 / 2 ^ 47)) = (Num (4550634291447570 / 2 ^ 42))"
    by (rule f_mul_inexact [where m = 4550634291447570 and k = 42]) simp_all
  have e34: "f_sub (Num 657) (Num (5522480402442923 / 2 ^ 43)) = (Num (8209686820727456 / 2 ^ 48))"
    by (rule f_sub_exact [where m = 8209686820727456 and k = 48]) simp_all
  have e35: "f_mul (Num (8209686820727456 / 2 ^ 48)) (Num (8209686820727456 / 2 ^ 48)) = (Num (7482787466808869 / 2 ^ 43))"
    by (rule f_mul_inexact [where m = 7482787466808869 and k = 43]) simp_all
  have e36: "f_sub (Num 614) (Num (5522480402442923 / 2 ^ 43)) = (Num (- 7787474355661504 / 2 ^ 49))"
    by (rule f_sub_exact [where m = "- 7787474355661504" and k = 49]) simp_all
  have e37: "f_mul (Num (- 7787474355661504 / 2 ^ 49)) (Num (- 7787474355661504 / 2 ^ 49)) = (Num (6732920536665694 / 2 ^ 45))"
    by (rule f_mul_inexact [where m = 6732920536665694 and k = 45]) simp_all
  have e38: "f_sub (Num 629) (Num (5522480402442923 / 2 ^ 43)) = (Num (5254199565265408 / 2 ^ 52))"
    by (rule f_sub_exact [where m = 5254199565265408 and k = 52]) simp_all
  have e39: "f_mul (Num (5254199565265408 / 2 ^ 52)) (Num (5254199565265408 / 2 ^ 52)) = (Num (6129899492809444 / 2 ^ 52))"
    by (rule f_mul_inexact [where m = 6129899492809444 and k = 52]) simp_all
  have e40: "f_sub (Num 627) (Num (5522480402442923 / 2 ^ 43)) = (Num (- 7505999378951168 / 2 ^ 53))"
    by (rule f_sub_exact [where m = "- 7505999378951168" and k = 53]) simp_all
  have e41: "f_mul (Num (- 7505999378951168 / 2 ^ 53)) (Num (- 7505999378951168 / 2 ^ 53)) = (Num (6254999482459591 / 2 ^ 53))"
    by (rule f_mul_inexact [where m = 6254999482459591 and k = 53]) simp_all
  have e42: "f_sub (Num 631) (Num (5522480402442923 / 2 ^ 43)) = (Num (7130699410003200 / 2 ^ 51))"
    by (rule f_sub_exact [where m = 7130699410003200 and k = 51]) simp_all
  have e43: "f_mul (Num (7130699410003200 / 2 ^ 51)) (Num (7130699410003200 / 2 ^ 51)) = (Num (5645137032919132 / 2 ^ 49))"
    by (rule f_mul_inexact [where m = 5645137032919132 and k = 49]) simp_all
  have e44: "f_sub (Num 610) (Num (5522480402442923 / 2 ^ 43)) = (Num (- 5019637084673376 / 2 ^ 48))"
    by (rule f_sub_exact [where m = "- 5019637084673376" and k = 48]) simp_all
  have e45: "f_mul (Num (- 5019637084673376 / 2 ^ 48)) (Num (- 5019637084673376 / 2 ^ 48)) = (Num (5594803833958879 / 2 ^ 44))"
    by (rule f_mul_inexact [where m = 5594803833958879 and k = 44]) simp_all
  have e46: "f_sub (Num 600) (Num (5522480402442923 / 2 ^ 43)) = (Num (- 7834386851779936 / 2 ^ 48))"
    by (rule f_sub_exact [where m = "- 7834386851779936" and k = 48]) simp_all
  have e47: "f_mul (Num (- 7834386851779936 / 2 ^ 48)) (Num (- 7834386851779936 / 2 ^ 48)) = (Num (6814284397121099 / 2 ^ 43))"
    by (rule f_mul_inexact [where m = 6814284397121099 and k = 43]) simp_all
  have e48: "f_add (Num 0) (Num (6239850655587467 / 2 ^ 44)) = (Num (6239850655587467 / 2 ^ 44))"
    by (rule f_add_exact [where m = 6239850655587467 and k = 44]) simp_all
  have e49: "f_add (Num (6239850655587467 / 2 ^ 44)) (Num (7273391585696828 / 2 ^ 46)) = (Num (8058198552011674 / 2 ^ 44))"
    by (rule f_add_exact [where m = 8058198552011674 and k = 44]) simp_all
  have e50: "f_add (Num (8058198552011674 / 2 ^ 44)) (Num (7228433776916631 / 2 ^ 47)) = (Num (8961752774126253 / 2 ^ 44))"
    by (rule f_add_inexact [where m = 8961752774126253 and k = 44]) simp_all
  have e51: "f_add (Num (8961752774126253 / 2 ^ 44)) (Num (5351933932178935 / 2 ^ 47)) = (Num (4815372257824310 / 2 ^ 43))"
    by (rule f_add_inexact [where m = 4815372257824310 and k = 43]) simp_all
  have e52: "f_add (Num (4815372257824310 / 2 ^ 43)) (Num (4693204299182492 / 2 ^ 46)) = (Num (5402022795222122 / 2 ^ 43))"
    by (rule f_add_tie [where m = 5402022795222122 and k = 43]) simp_all
  have e53: "f_add (Num (5402022795222122 / 2 ^ 43)) (Num (6239850655587467 / 2 ^ 44)) = (Num (8521948123015856 / 2 ^ 43))"
    by (rule f_add_tie [where m = 8521948123015856 and k = 43]) simp_all
  have e54: "f_add (Num (8521948123015856 / 2 ^ 43)) (Num (6804266624512508 / 2 ^ 46)) = (Num (4686240725539960 / 2 ^ 42))"
    by (rule f_add_inexact [where m = 4686240725539960 and k = 42]) simp_all
  have e55: "f_add (Num (4686240725539960 / 2 ^ 42)) (Num (4550634291447570 / 2 ^ 42)) = (Num (4618437508493765 / 2 ^ 41))"
    by (rule f_add_exact [where m = 4618437508493765 and k = 41]) simp_all
  have e56: "f_add (Num (4618437508493765 / 2 ^ 41)) (Num (7482787466808869 / 2 ^ 43)) = (Num (6489134375195982 / 2 ^ 41))"
    by (rule f_add_inexact [where m = 6489134375195982 and k = 41]) simp_all
  have e57: "f_add (Num (6489134375195982 / 2 ^ 41)) (Num (6732920536665694 / 2 ^ 45)) = (Num (6909941908737588 / 2 ^ 41))"
    by (rule f_add_inexact [where m = 6909941908737588 and k = 41]) simp_all
  have e58: "f_add (Num (6909941908737588 / 2 ^ 41)) (Num (6129899492809444 / 2 ^ 52)) = (Num (6912935023724311 / 2 ^ 41))"
    by (rule f_add_inexact [where m = 6912935023724311 and k = 41]) simp_all
  have e59: "f_add (Num (6912935023724311 / 2 ^ 41)) (Num (6254999482459591 / 2 ^ 53)) = (Num (6914462123207333 / 2 ^ 41))"
    by (rule f_add_inexact [where m = 6914462123207333 and k = 41]) simp_all
  have e60: "f_add (Num (6914462123207333 / 2 ^ 41)) (Num (5645137032919132 / 2 ^ 49)) = (Num (6936513439742173 / 2 ^ 41))"
    by (rule f_add_inexact [where m = 6936513439742173 and k = 41]) simp_all
  have e61: "f_add (Num (6936513439742173 / 2 ^ 41)) (Num (4693204299182492 / 2 ^ 46)) = (Num (7083176074091626 / 2 ^ 41))"
    by (rule f_add_inexact [where m = 7083176074091626 and k = 41]) simp_all
  have e62: "f_add (Num (7083176074091626 / 2 ^ 41)) (Num (6254999482459591 / 2 ^ 53)) = (Num (7084703173574648 / 2 ^ 41))"
    by (rule f_add_inexact [where m = 7084703173574648 and k = 41]) simp_all
  have e63: "f_add (Num (7084703173574648 / 2 ^ 41)) (Num (5594803833958879 / 2 ^ 44)) = (Num (7784053652819508 / 2 ^ 41))"
    by (rule f_add_inexact [where m = 7784053652819508 and k = 41]) simp_all
  have e64: "f_add (Num (7784053652819508 / 2 ^ 41)) (Num (6814284397121099 / 2 ^ 43)) = (Num (4743812376049891 / 2 ^ 40))"
    by (rule f_add_inexact [where m = 4743812376049891 and k = 40]) simp_all
  have e65: "f_add (Num (4743812376049891 / 2 ^ 40)) (Num (5645137032919132 / 2 ^ 49)) = (Num (4754838034317311 / 2 ^ 40))"
    by (rule f_add_inexact [where m = 4754838034317311 and k = 40]) simp_all
  have e66: "f_div (Num (4754838034317311 / 2 ^ 40)) (Num 18) = (Num (8453045394341886 / 2 ^ 45))"
    by (rule f_div_inexact [where m = 8453045394341886 and k = 45]) simp_all
  have e67: "Math_sqrt (Num (8453045394341886 / 2 ^ 45)) = (Num (8725724278030335 / 2 ^ 49))"
    by (rule Math_sqrt_inexact [where m = 8725724278030335 and k = 49]) (simp_all add: power2_eq_square)
  have len: "real (length [609, 638, 635, 634, 636, 609, 618, 660, 657, 614, 629, 627, 631, 636, 627, 610, 600, 631]) = 18"
    by simp
  have mean: "double_mean [609, 638, 635, 634, 636, 609, 618, 660, 657, 614, 629, 627, 631, 636, 627, 610, 600, 631] = Num (5522480402442923 / 2 ^ 43)"
    unfolding double_mean_def f_reduce_sum_def len
    by (simp only: list.map foldl.simps e1 e2 e3 e4 e5 e6 e7 e8 e9 e10 e11 e12 e13 e14 e15 e16 e17 e18 e19 e20 e21 e22 e23 e24 e25 e26 e27 e28 e29 e30 e31 e32 e33 e34 e35 e36 e37 e38 e39 e40 e41 e42 e43 e44 e45 e46 e47 e48 e49 e50 e51 e52 e53 e54 e55 e56 e57 e58 e59 e60 e61 e62 e63 e64 e65 e66 e67)
  show ?thesis
    unfolding half_sd_series_def double_population_sd_def mean f_reduce_sum_def len Math_pow2_def
    by (simp only: list.map foldl.simps e1 e2 e3 e4 e5 e6 e7 e8 e9 e10 e11 e12 e13 e14 e15 e16 e17 e18 e19 e20 e21 e22 e23 e24 e25 e26 e27 e28 e29 e30 e31 e32 e33 e34 e35 e36 e37 e38 e39 e40 e41 e42 e43 e44 e45 e46 e47 e48 e49 e50 e51 e52 e53 e54 e55 e56 e57 e58 e59 e60 e61 e62 e63 e64 e65 e66 e67)
qed



lemma spec_population_sd_half: "spec_population_sd half_sd_series = 31 / 2"
proof -
  have "spec_population_sd half_sd_series = sqrt ((31 / 2)\<^sup>2)"
    by (simp add: spec_population_sd_def spec_mean_def half_sd_series_def power2_eq_square)
  then show ?thesis by simp
qed

text \<open>
  Claim C1, refuted as worded. One reading with the eighteen intervals of
  \<^const>\<open>half_sd_series\<close>: their population standard deviation is exactly 15.5, which rounds
  to 16, and \<^verbatim>\<open>getStats()\<close> returns \<open>sdnn = 15\<close>, because the square root that the
  double arithmetic of the code arrives at is 15.499999999999998.
\<close>

theorem getStats_sdnn_not_rounded_sd:
  "sdnn (getStats 9000 (addReading 1000 70 (Some half_sd_series) StatsCalculator_new)) = Num 15 \<and>
   double_population_sd half_sd_series = Num (8725724278030335 / 2 ^ 49) \<and>
   spec_population_sd half_sd_series = 31 / 2 \<and>
   round_real (spec_population_sd half_sd_series) = 16"
proof -
  have r: "Math_round (double_population_sd half_sd_series) = Num 15"
    unfolding double_population_sd_half by (rule Math_round_eqI [where n = 15]) simp_all
  have len: "\<not> length half_sd_series < 2"
    by (simp add: half_sd_series_def)
  have "sdnn (getStats 9000 (addReading 1000 70 (Some half_sd_series) StatsCalculator_new)) =
          Math_round (double_population_sd half_sd_series)"
    using len by (simp add: getStats_sdnn addReading_fresh)
  with r have "sdnn (getStats 9000 (addReading 1000 70 (Some half_sd_series) StatsCalculator_new)) =
          Num 15"
    by (simp only:)
  moreover have "round (31 / 2 :: real) = 16"
    unfolding round_def by (intro floor_unique) simp_all
  then have "round_real (spec_population_sd half_sd_series) = 16"
    by (simp add: spec_population_sd_half round_real_def)
  ultimately show ?thesis
    using double_population_sd_half spec_population_sd_half by (intro conjI)
qed



section \<open>Properties of the Spectral Analysis Engine\<close>

subsection \<open>Buffer and batching\<close>







subsection \<open>Short buffers have a zero spectrum\<close>

lemma asc_cache_zero:
  "asc_reachable fft c \<Longrightarrow> length (rrIntervals c) < 60 \<Longrightarrow>
   cachedFrequencyDomain c = zeroFrequencyDomain"
proof (induction rule: asc_reachable.induct)
  case asc_new
  show ?case by (simp add: AdvancedStatsCalculator_new_def)
next
  case (asc_after_call c call)
  show ?case
  proof (cases call)
    case (AddRRIntervals rrs)
    with asc_after_call show ?thesis by (simp add: addRRIntervals_def)
  next
    case (Calculate now)
    with asc_after_call show ?thesis
      by (auto simp: calculate_def Let_def calculateFrequencyDomain_def split: if_splits)
  next
    case Reset
    then show ?thesis by (simp add: reset_def)
  qed
qed

text \<open>
  Claim C5. In every state that a sequence of \<^verbatim>\<open>addRRIntervals\<close>, \<^verbatim>\<open>calculate\<close> and
  \<^verbatim>\<open>reset\<close> calls reaches, at any clock values, if the buffer holds fewer than 60
  intervals then \<^verbatim>\<open>calculate()\<close> returns \<open>lf = hf = lfHfRatio = respirationRate = 0\<close>.
\<close>

theorem calculate_spectral_zero_below_60:
  "asc_reachable fft c \<Longrightarrow> length (rrIntervals c) < 60 \<Longrightarrow>
     lf (fst (calculate fft now c)) = Num 0 \<and>
     hf (fst (calculate fft now c)) = Num 0 \<and>
     lfHfRatio (fst (calculate fft now c)) = Num 0 \<and>
     respirationRate (fst (calculate fft now c)) = Num 0"
proof -
  assume reach: "asc_reachable fft c" and short: "length (rrIntervals c) < 60"
  then have cache: "cachedFrequencyDomain c = zeroFrequencyDomain"
    by (rule asc_cache_zero)
  with short show ?thesis
    by (simp add: calculate_def Let_def calculateFrequencyDomain_def zeroFrequencyDomain_def)
qed

theorem calculate_spectral_zero_below_60_witness:
  "asc_reachable sample_fft
     (asc_run sample_fft
        [AddRRIntervals [800, 900, 1000], Calculate 1700000000000, AddRRIntervals [950]]
        AdvancedStatsCalculator_new) \<and>
   lf (fst (calculate sample_fft
     1700000009000
     (asc_run sample_fft
        [AddRRIntervals [800, 900, 1000], Calculate 1700000000000, AddRRIntervals [950]]
        AdvancedStatsCalculator_new))) = Num 0"
proof -
  let ?S = "sample_fft"
  let ?c = "asc_run ?S [AddRRIntervals [800, 900, 1000], Calculate 1700000000000,
                        AddRRIntervals [950]] AdvancedStatsCalculator_new"
  have reach: "asc_reachable ?S ?c"
    unfolding asc_run_def foldl.simps by (intro asc_after_call asc_new)
  have short: "length (rrIntervals ?c) < 60"
    by (simp add: asc_run_def addRRIntervals_def calculate_def Let_def
                  AdvancedStatsCalculator_new_def)
  from calculate_spectral_zero_below_60 [OF reach short, of 1700000009000] reach
  show ?thesis by simp
qed

subsection \<open>The throttle\<close>

lemma asc_run_within_window:
  "list_all (call_within_window t) calls \<Longrightarrow> lastFrequencyCalculation c = t \<Longrightarrow>
   cachedFrequencyDomain (asc_run fft calls c) = cachedFrequencyDomain c \<and>
   lastFrequencyCalculation (asc_run fft calls c) = t \<and>
   rrIntervals (asc_run fft calls c) = rrIntervals c @ concat (map intervals_added calls)"
proof (induction calls arbitrary: c)
  case Nil
  then show ?case by (simp add: asc_run_def)
next
  case (Cons call calls)
  have step:
    "cachedFrequencyDomain (asc_step fft c call) = cachedFrequencyDomain c \<and>
     lastFrequencyCalculation (asc_step fft c call) = t \<and>
     rrIntervals (asc_step fft c call) = rrIntervals c @ intervals_added call"
    using Cons.prems
    by (cases call)
       (auto simp: addRRIntervals_def calculate_def Let_def
                   FREQUENCY_CALCULATION_INTERVAL_MS_def)
  from Cons.prems have "list_all (call_within_window t) calls"
    by simp
  from Cons.IH [OF this, of "asc_step fft c call"] step
  show ?case by (simp add: asc_run_def)
qed

text \<open>
  Claim C4. With at least 2 buffered intervals, if \<^verbatim>\<open>calculate()\<close> recomputes the
  spectral fields at clock value \<open>t\<close> (more than 5000 ms after the last recomputation),
  then after any calls of \<^verbatim>\<open>addRRIntervals\<close> and \<^verbatim>\<open>calculate\<close> in between, a
  \<^verbatim>\<open>calculate()\<close> at a clock value \<open>t'\<close> at most 5000 ms after \<open>t\<close> returns the same
  \<open>lf\<close>, \<open>hf\<close>, \<open>lfHfRatio\<close> and \<open>respirationRate\<close> as the call at \<open>t\<close>, while its
  \<open>pnn50\<close> and \<open>stressIndex\<close> are computed from the buffer as it stands at that call:
  the old buffer followed by every batch added in between. The call at \<open>t\<close> itself
  returns the spectrum, \<open>pnn50\<close> and \<open>stressIndex\<close> of the buffer at \<open>t\<close>.
\<close>

theorem calculate_throttled:
  assumes buffered: "2 \<le> length (rrIntervals c)"
    and recompute: "t - lastFrequencyCalculation c > FREQUENCY_CALCULATION_INTERVAL_MS"
    and between: "list_all (call_within_window t) calls"
    and later: "t' - t \<le> 5000"
  shows
    "cachedFrequencyDomain (snd (calculate fft t c)) =
       calculateFrequencyDomain fft (rrIntervals c) \<and>
     lf (fst (calculate fft t c)) = lf (calculateFrequencyDomain fft (rrIntervals c)) \<and>
     pnn50 (fst (calculate fft t c)) = calculatePNN50 (rrIntervals c) \<and>
     stressIndex (fst (calculate fft t c)) = calculateStressIndex (rrIntervals c) \<and>
     lf (fst (calculate fft t' (asc_run fft calls (snd (calculate fft t c))))) =
       lf (fst (calculate fft t c)) \<and>
     hf (fst (calculate fft t' (asc_run fft calls (snd (calculate fft t c))))) =
       hf (fst (calculate fft t c)) \<and>
     lfHfRatio (fst (calculate fft t' (asc_run fft calls (snd (calculate fft t c))))) =
       lfHfRatio (fst (calculate fft t c)) \<and>
     respirationRate (fst (calculate fft t' (asc_run fft calls (snd (calculate fft t c))))) =
       respirationRate (fst (calculate fft t c)) \<and>
     pnn50 (fst (calculate fft t' (asc_run fft calls (snd (calculate fft t c))))) =
       calculatePNN50 (rrIntervals c @ concat (map intervals_added calls)) \<and>
     stressIndex (fst (calculate fft t' (asc_run fft calls (snd (calculate fft t c))))) =
       calculateStressIndex (rrIntervals c @ concat (map intervals_added calls))"
proof -
  let ?c1 = "snd (calculate fft t c)"
  let ?c2 = "asc_run fft calls ?c1"
  have c1: "cachedFrequencyDomain ?c1 = calculateFrequencyDomain fft (rrIntervals c)"
    "lastFrequencyCalculation ?c1 = t" "rrIntervals ?c1 = rrIntervals c"
    using buffered recompute by (simp_all add: calculate_def Let_def)
  have r1: "lf (fst (calculate fft t c)) = lf (cachedFrequencyDomain ?c1)"
    "hf (fst (calculate fft t c)) = hf (cachedFrequencyDomain ?c1)"
    "lfHfRatio (fst (calculate fft t c)) = lfHfRatio (cachedFrequencyDomain ?c1)"
    "respirationRate (fst (calculate fft t c)) = respirationRate (cachedFrequencyDomain ?c1)"
    using buffered by (simp_all add: calculate_def Let_def)
  from asc_run_within_window [OF between c1(2), of fft]
  have c2: "cachedFrequencyDomain ?c2 = cachedFrequencyDomain ?c1"
    "lastFrequencyCalculation ?c2 = t"
    "rrIntervals ?c2 = rrIntervals c @ concat (map intervals_added calls)"
    by (simp_all add: c1(3))
  have len2: "2 \<le> length (rrIntervals ?c2)"
    using buffered by (simp add: c2(3))
  have r2: "lf (fst (calculate fft t' ?c2)) = lf (cachedFrequencyDomain ?c2)"
    "hf (fst (calculate fft t' ?c2)) = hf (cachedFrequencyDomain ?c2)"
    "lfHfRatio (fst (calculate fft t' ?c2)) = lfHfRatio (cachedFrequencyDomain ?c2)"
    "respirationRate (fst (calculate fft t' ?c2)) = respirationRate (cachedFrequencyDomain ?c2)"
    "pnn50 (fst (calculate fft t' ?c2)) = calculatePNN50 (rrIntervals ?c2)"
    "stressIndex (fst (calculate fft t' ?c2)) = calculateStressIndex (rrIntervals ?c2)"
    using len2 later c2(2)
    by (simp_all add: calculate_def Let_def FREQUENCY_CALCULATION_INTERVAL_MS_def)
  have first: "pnn50 (fst (calculate fft t c)) = calculatePNN50 (rrIntervals c)"
    "stressIndex (fst (calculate fft t c)) = calculateStressIndex (rrIntervals c)"
    using buffered by (simp_all add: calculate_def Let_def)
  show ?thesis
    by (simp only: r1 r2 c2 c1 first simp_thms)
qed

theorem calculate_throttled_witness:
  "2 \<le> length (rrIntervals (addRRIntervals (replicate 60 800) AdvancedStatsCalculator_new)) \<and>
   1700000000000 - lastFrequencyCalculation (addRRIntervals (replicate 60 800) AdvancedStatsCalculator_new)
      > FREQUENCY_CALCULATION_INTERVAL_MS \<and>
   list_all (call_within_window 1700000000000)
      [AddRRIntervals [700, 900], Calculate 1700000002000, AddRRIntervals [650]] \<and>
   1700000005000 - 1700000000000 \<le> (5000::int) \<and>
   lf (fst (calculate sample_fft 1700000005000
         (asc_run sample_fft [AddRRIntervals [700, 900], Calculate 1700000002000, AddRRIntervals [650]]
            (snd (calculate sample_fft 1700000000000
                    (addRRIntervals (replicate 60 800) AdvancedStatsCalculator_new)))))) =
     lf (fst (calculate sample_fft 1700000000000
                (addRRIntervals (replicate 60 800) AdvancedStatsCalculator_new))) \<and>
   pnn50 (fst (calculate sample_fft 1700000005000
         (asc_run sample_fft [AddRRIntervals [700, 900], Calculate 1700000002000, AddRRIntervals [650]]
            (snd (calculate sample_fft 1700000000000
                    (addRRIntervals (replicate 60 800) AdvancedStatsCalculator_new)))))) =
     calculatePNN50 (replicate 60 800 @ [700, 900, 650])"
proof -
  let ?c = "addRRIntervals (replicate 60 800) AdvancedStatsCalculator_new"
  let ?calls = "[AddRRIntervals [700, 900], Calculate 1700000002000, AddRRIntervals [650]]"
  have rr: "rrIntervals ?c = replicate 60 800"
    by (simp add: addRRIntervals_def AdvancedStatsCalculator_new_def)
  have buffered: "2 \<le> length (rrIntervals ?c)"
    by (simp add: rr)
  have recompute: "1700000000000 - lastFrequencyCalculation ?c > FREQUENCY_CALCULATION_INTERVAL_MS"
    by (simp add: addRRIntervals_def AdvancedStatsCalculator_new_def
                  FREQUENCY_CALCULATION_INTERVAL_MS_def)
  have between: "list_all (call_within_window 1700000000000) ?calls"
    by simp
  have later: "1700000005000 - 1700000000000 \<le> (5000::int)"
    by simp
  from calculate_throttled [OF buffered recompute between later, of sample_fft]
  show ?thesis
    using buffered recompute by (simp add: rr)
qed

section \<open>Properties of the Stress Index Estimator\<close>
































lemma tie_bin_800: "f_mul (Math_round (f_div (Num 800) (Num 50))) (Num 50) = Num 800"
proof -
  have b1: "f_div (Num 800) (Num 50) = (Num 16)"
    by (rule f_div_exact [where m = 16 and k = 0]) simp_all
  have b2: "f_mul (Num 16) (Num 50) = (Num 800)"
    by (rule f_mul_exact [where m = 800 and k = 0]) simp_all
  have r: "Math_round (Num 16) = Num 16"
    by (rule Math_round_eqI [where n = 16]) simp_all
  show ?thesis by (simp only: b1 b2 r)
qed

lemma tie_bin_900: "f_mul (Math_round (f_div (Num 900) (Num 50))) (Num 50) = Num 900"
proof -
  have b1: "f_div (Num 900) (Num 50) = (Num 18)"
    by (rule f_div_exact [where m = 18 and k = 0]) simp_all
  have b2: "f_mul (Num 18) (Num 50) = (Num 900)"
    by (rule f_mul_exact [where m = 900 and k = 0]) simp_all
  have r: "Math_round (Num 18) = Num 18"
    by (rule Math_round_eqI [where n = 18]) simp_all
  show ?thesis by (simp only: b1 b2 r)
qed

lemma tie_histogram: "stress_histogram tie_series = (Num 800, Num 900, [(Num 800, 15), (Num 900, 15)])"
  by (simp add: tie_series_def stress_histogram_def histogram_step_def binSize_def js_gt_def tie_bin_800 tie_bin_900)

lemma tie_modal_bin: "modal_bin [(Num 800, 15), (Num 900, 15)] = (15, Num 800)"
  by (simp add: modal_bin_def Object_entries_def is_array_index_def index_value_def mode_step_def)

lemma tie_stress: "calculateStressIndex tie_series = Num 312"
proof -
  have e1: "f_div (Num 15) (Num 30) = (Num (4503599627370496 / 2 ^ 53))"
    by (rule f_div_exact [where m = 4503599627370496 and k = 53]) simp_all
  have e2: "f_mul (Num (4503599627370496 / 2 ^ 53)) (Num 100) = (Num 50)"
    by (rule f_mul_exact [where m = 50 and k = 0]) simp_all
  have e3: "f_div (Num 800) (Num 1000) = (Num (7205759403792794 / 2 ^ 53))"
    by (rule f_div_inexact [where m = 7205759403792794 and k = 53]) simp_all
  have e4: "f_sub (Num 900) (Num 800) = (Num 100)"
    by (rule f_sub_exact [where m = 100 and k = 0]) simp_all
  have e5: "f_div (Num 100) (Num 1000) = (Num (7205759403792794 / 2 ^ 56))"
    by (rule f_div_inexact [where m = 7205759403792794 and k = 56]) simp_all
  have e6: "f_mul (Num 2) (Num (7205759403792794 / 2 ^ 53)) = (Num (7205759403792794 / 2 ^ 52))"
    by (rule f_mul_exact [where m = 7205759403792794 and k = 52]) simp_all
  have e7: "f_mul (Num (7205759403792794 / 2 ^ 52)) (Num (7205759403792794 / 2 ^ 56)) = (Num (5764607523034236 / 2 ^ 55))"
    by (rule f_mul_inexact [where m = 5764607523034236 and k = 55]) simp_all
  have e8: "f_div (Num 50) (Num (5764607523034236 / 2 ^ 55)) = (Num (5497558138879999 / 2 ^ 44))"
    by (rule f_div_inexact [where m = 5497558138879999 and k = 44]) simp_all
  have r: "Math_round (Num (5497558138879999 / 2 ^ 44)) = Num 312"
    by (rule Math_round_eqI [where n = 312]) simp_all
  have len: "\<not> length tie_series < 30" "real (length tie_series) = 30"
    by (simp_all add: tie_series_def)
  have guard: "\<not> (js_eq (Num (7205759403792794 / 2 ^ 56)) (Num 0) \<or> js_eq (Num (7205759403792794 / 2 ^ 53)) (Num 0))"
    by simp
  have cnt: "real 15 = 15"
    by simp
  show ?thesis
    unfolding calculateStressIndex_def tie_histogram Let_def
    by (simp only: len if_False prod.case tie_modal_bin cnt of_nat_numeral e1 e2 e3 e4 e5 e6 e7 e8 guard r)
qed

lemma spec_stress_index_tie:
  "spec_bin_count tie_series 800 = 15"
  "spec_bin_count tie_series 900 = 15"
  "spec_stress_index tie_series 800 = 313"
  "spec_stress_index tie_series 900 = 278"
proof -
  show c8: "spec_bin_count tie_series 800 = 15" and c9: "spec_bin_count tie_series 900 = 15"
    by (simp_all add: spec_bin_count_def spec_bin_center_def tie_series_def)
  have range: "Max (set tie_series) = 900" "Min (set tie_series) = 800"
    by (simp_all add: tie_series_def)
  have len: "real (length tie_series) = 30"
    by (simp add: tie_series_def)
  have r1: "round (625 / 2 :: real) = 313"
    unfolding round_def by (intro floor_unique) simp_all
  have r2: "round (2500 / 9 :: real) = 278"
    unfolding round_def by (intro floor_unique) simp_all
  show "spec_stress_index tie_series 800 = 313"
    unfolding spec_stress_index_def c8 range len by (simp add: round_real_def r1)
  show "spec_stress_index tie_series 900 = 278"
    unfolding spec_stress_index_def c9 range len by (simp add: round_real_def r2)
qed

text \<open>
  Claim C6, refuted as worded. For the thirty intervals of \<^const>\<open>tie_series\<close> the two
  bins 800 and 900 hold fifteen intervals each, \<open>AMo = 50\<close>, \<open>MxDMn = 0.1\<close>, and
  \<open>round (AMo / (2 * Mo * MxDMn))\<close> is 313 for \<open>Mo = 0.8\<close> (312.5 rounds up) and 278 for
  \<open>Mo = 0.9\<close>; \<^verbatim>\<open>calculate()\<close> returns \<open>stressIndex = 312\<close>, because the quotient that the
  double arithmetic of the code arrives at is 312.49999999999994.
\<close>

theorem stressIndex_not_rounded_quotient:
  "stressIndex (fst (calculate sample_fft 1700000000000
      (addRRIntervals tie_series AdvancedStatsCalculator_new))) = Num 312 \<and>
   spec_bin_count tie_series 800 = 15 \<and>
   spec_bin_count tie_series 900 = 15 \<and>
   spec_stress_index tie_series 800 = 313 \<and>
   spec_stress_index tie_series 900 = 278"
proof -
  let ?c = "addRRIntervals tie_series AdvancedStatsCalculator_new"
  have rr: "rrIntervals ?c = tie_series"
    by (simp add: addRRIntervals_def AdvancedStatsCalculator_new_def)
  have len: "length tie_series = 30"
    by (simp add: tie_series_def)
  have "stressIndex (fst (calculate sample_fft 1700000000000 ?c)) = Num 312"
    by (simp add: calculate_def Let_def rr len tie_stress)
  with spec_stress_index_tie show ?thesis by (intro conjI)
qed



section \<open>Properties of the readiness score\<close>





text \<open>
  Claim C7, refuted as worded. The division by the baseline RMSSD is unguarded. With a
  baseline RMSSD of -40 and everything else fixed, raising \<open>rmssd\<close> from -40 to 40 lowers
  the score from 100 to 60. With a baseline RMSSD of 0, \<open>rmssd = 0\<close> gives the score
  \<open>NaN\<close> (from 0 / 0), which is not below the score 100 of \<open>rmssd = 10\<close>.
\<close>

theorem calculateReadiness_not_monotone:
  "(- 40 :: real) \<le> 40 \<and>
   score (calculateReadiness (sample_stats\<lparr>rmssd := - 40\<rparr>) sample_advanced negative_baseline) =
     Num 100 \<and>
   score (calculateReadiness (sample_stats\<lparr>rmssd := 40\<rparr>) sample_advanced negative_baseline) =
     Num 60 \<and>
   \<not> js_le (score (calculateReadiness (sample_stats\<lparr>rmssd := - 40\<rparr>) sample_advanced negative_baseline))
           (score (calculateReadiness (sample_stats\<lparr>rmssd := 40\<rparr>) sample_advanced negative_baseline)) \<and>
   (0 :: real) \<le> 10 \<and>
   score (calculateReadiness (sample_stats\<lparr>rmssd := 0\<rparr>) sample_advanced zero_baseline) = NaN \<and>
   score (calculateReadiness (sample_stats\<lparr>rmssd := 10\<rparr>) sample_advanced zero_baseline) =
     Num 100 \<and>
   \<not> js_le (score (calculateReadiness (sample_stats\<lparr>rmssd := 0\<rparr>) sample_advanced zero_baseline))
           (score (calculateReadiness (sample_stats\<lparr>rmssd := 10\<rparr>) sample_advanced zero_baseline))"
  by (simp add: calculateReadiness_def Let_def sample_stats_def sample_advanced_def
        negative_baseline_def zero_baseline_def js_gt_def js_le_def js_signed_inf_def round_real_def)



section \<open>Properties of the trend direction classifier\<close>










lemma overflow_sum:
  "f_reduce_sum (map Num [2 ^ 1023, 2 ^ 1023]) = PInf"
  "f_reduce_sum (map Num [3 * 2 ^ 1022, 3 * 2 ^ 1022]) = PInf"
proof -
  have d1: "is_double (2 ^ 1023)"
    using is_double_pow2 [of "2 ^ 52" 971] by simp
  have d2: "is_double (3 * 2 ^ 1022)"
    using is_double_pow2 [of "3 * 2 ^ 51" 971] by simp
  have a1: "f_add (Num 0) (Num (2 ^ 1023)) = Num (2 ^ 1023)"
    using fl_exact [OF d1] by (simp add: f_add_def)
  have a2: "f_add (Num 0) (Num (3 * 2 ^ 1022)) = Num (3 * 2 ^ 1022)"
    using fl_exact [OF d2] by (simp add: f_add_def)
  have b1: "f_add (Num (2 ^ 1023)) (Num (2 ^ 1023)) = PInf"
    by (simp add: f_add_def fl_def)
  have b2: "f_add (Num (3 * 2 ^ 1022)) (Num (3 * 2 ^ 1022)) = PInf"
    by (simp add: f_add_def fl_def)
  show "f_reduce_sum (map Num [2 ^ 1023, 2 ^ 1023]) = PInf"
    unfolding f_reduce_sum_def by (simp only: list.map foldl.simps a1 b1)
  show "f_reduce_sum (map Num [3 * 2 ^ 1022, 3 * 2 ^ 1022]) = PInf"
    unfolding f_reduce_sum_def by (simp only: list.map foldl.simps a2 b2)
qed

lemma trend_change_overflow: "trend_change overflow_series = NaN"
proof -
  have halves: "take (length overflow_series div 2) overflow_series = [2 ^ 1023, 2 ^ 1023]"
    "drop (length overflow_series div 2) overflow_series = [3 * 2 ^ 1022, 3 * 2 ^ 1022]"
    by (simp_all add: overflow_series_def)
  show ?thesis
    unfolding trend_change_def Let_def halves overflow_sum
    by (simp add: f_div_def f_sub_def f_mul_def js_sub_def js_or_def)
qed

text \<open>
  Claim C10, refuted as worded. For the four values of \<^const>\<open>overflow_series\<close> both half
  sums overflow to \<open>Infinity\<close>, both means are \<open>Infinity\<close>, their difference is \<open>NaN\<close>
  and so is \<^verbatim>\<open>change\<close>; both comparisons fail and the result is \<open>stable\<close>, for a series
  whose second half lies 50 per cent above the first.
\<close>

theorem getTrendDirection_change_NaN:
  "trend_change overflow_series = NaN \<and>
   getTrendDirection overflow_series = ''stable'' \<and>
   double_mean (take 2 overflow_series) = PInf \<and>
   double_mean (drop 2 overflow_series) = PInf \<and>
   (spec_mean (drop 2 overflow_series) - spec_mean (take 2 overflow_series)) /
      spec_mean (take 2 overflow_series) * 100 = 50"
proof -
  have halves: "take 2 overflow_series = [2 ^ 1023, 2 ^ 1023]"
    "drop 2 overflow_series = [3 * 2 ^ 1022, 3 * 2 ^ 1022]"
    by (simp_all add: overflow_series_def)
  have "f_div PInf (Num (real (length xs))) = PInf" for xs :: "real list"
    by (simp add: f_div_def)
  then have means: "double_mean (take 2 overflow_series) = PInf"
      "double_mean (drop 2 overflow_series) = PInf"
    unfolding halves double_mean_def overflow_sum by (simp_all only:)
  have long: "\<not> length overflow_series < 2"
    by (simp add: overflow_series_def)
  have label: "getTrendDirection overflow_series = ''stable''"
    unfolding getTrendDirection_def Let_def trend_change_overflow
    using long by (simp add: js_gt_def)
  have exact: "(spec_mean (drop 2 overflow_series) - spec_mean (take 2 overflow_series)) /
      spec_mean (take 2 overflow_series) * 100 = 50"
    by (simp add: spec_mean_def overflow_series_def)
  from trend_change_overflow label means exact show ?thesis by (intro conjI)
qed



section \<open>Properties of the recovery score\<close>

lemmas recovery_eval =
  calculateRecoveryScore_def recovery_hrvScore_def recovery_hrScore_def recovery_stressScore_def
  recovery_consistencyScore_def recovery_zone_def no_data_def Set_size_def Let_def
  sample_session_def sample_test_def sample_stats_def sample_advanced_def
  reduce_sum_def js_reduce_sum_def js_gt_def js_ge_def js_le_def js_sub_def
  round_real_def round_def utc_day_def

text \<open>
  Claim C8. \<^verbatim>\<open>calculateRecoveryScore\<close> returns the sentinel (score 0, zone \<open>poor\<close>,
  label \<open>No Data\<close>, all four factors 0) whenever no session has its \<open>startTime\<close> at or
  after the cutoff \<open>now - days * 86400000\<close> and no morning test has its \<open>timestamp\<close> at
  or after it, whatever the history holds before the cutoff.
\<close>

theorem calculateRecoveryScore_no_data:
  assumes "\<forall>s\<in>set sessions. startTime s < now - days * 86400000"
    and "\<forall>t\<in>set morningTests. timestamp t < now - days * 86400000"
  shows "calculateRecoveryScore now toDateString sessions morningTests days =
     \<lparr>recovery_score = Num 0, zone = ''poor'', recovery_color = ''#ef4444'', label = ''No Data'',
      recovery_factors = \<lparr>hrvBaseline = Num 0, restingHrTrend = Num 0,
                          stressHistory = Num 0, consistency = Num 0\<rparr>\<rparr>"
proof -
  from assms(1) have s: "filter (\<lambda>s. startTime s \<ge> now - days * 86400000) sessions = []"
    by (auto simp: filter_empty_conv)
  from assms(2) have t: "filter (\<lambda>t. timestamp t \<ge> now - days * 86400000) morningTests = []"
    by (auto simp: filter_empty_conv)
  show ?thesis
    unfolding calculateRecoveryScore_def Let_def s t by (simp add: no_data_def)
qed

theorem calculateRecoveryScore_no_data_witness:
  "startTime (sample_session 1727136000000) < 1728000000000 - 7 * 86400000 \<and>
   startTime (sample_session 1727222400000) < 1728000000000 - 7 * 86400000 \<and>
   timestamp (sample_test 1727308800000) < 1728000000000 - 7 * 86400000 \<and>
   label (calculateRecoveryScore 1728000000000 utc_day
            [sample_session 1727136000000, sample_session 1727222400000]
            [sample_test 1727308800000] 7) = ''No Data'' \<and>
   recovery_score (calculateRecoveryScore 1728000000000 utc_day
            [sample_session 1727136000000, sample_session 1727222400000]
            [sample_test 1727308800000] 7) = Num 0"
proof -
  have old_sessions:
    "\<forall>s\<in>set [sample_session 1727136000000, sample_session 1727222400000].
       startTime s < 1728000000000 - 7 * 86400000"
    by (simp add: sample_session_def)
  have old_tests:
    "\<forall>t\<in>set [sample_test 1727308800000]. timestamp t < 1728000000000 - 7 * 86400000"
    by (simp add: sample_test_def)
  from calculateRecoveryScore_no_data [OF old_sessions old_tests, of utc_day]
       old_sessions old_tests
  show ?thesis by simp
qed

text \<open>
  Claim C2, as stated, fails: a session and a morning test one minute apart on the same
  calendar day, both within a 7-day window, give the consistency sub-score 7 (two
  counted days), where one counted day gives 4.
\<close>

theorem consistency_counts_day_twice:
  "utc_day (startTime (sample_session 1727956830000)) =
     utc_day (timestamp (sample_test 1727956890000)) \<and>
   consistency (recovery_factors (calculateRecoveryScore 1728000000000 utc_day
      [sample_session 1727956830000] [sample_test 1727956890000] 7)) = Num 7 \<and>
   spec_consistency 1728000000000 utc_day
      [sample_session 1727956830000] [sample_test 1727956890000] 7 = 4"
  by (simp add: recovery_eval spec_consistency_def)

text \<open>
  Claim C2, amended. For \<open>days \<ge> 1\<close> the consistency sub-score is the number of distinct
  calendar days with a session in the window plus the number of distinct calendar days
  with a morning test in the window, capped at \<open>days\<close>, divided by \<open>min days 7\<close>, scaled
  to 25, rounded and capped at 25. A day with both a session and a test counts twice.
\<close>

theorem consistency_sums_day_counts:
  assumes "1 \<le> days"
  shows "consistency (recovery_factors (calculateRecoveryScore now toDateString sessions morningTests days)) =
    Num (min 25 (round_real (real_of_int (min
       (int (card ((\<lambda>s. toDateString (startTime s)) ` {s \<in> set sessions. now - days * 86400000 \<le> startTime s})
           + card ((\<lambda>t. toDateString (timestamp t)) ` {t \<in> set morningTests. now - days * 86400000 \<le> timestamp t})))
       days) / real_of_int (min days 7) * 25)))"
proof -
  have sz: "Set_size (map f (filter P xs)) = card (f ` {x \<in> set xs. P x})" for f :: "'x \<Rightarrow> 'y" and P xs
    by (simp add: Set_size_def length_remdups_card_conv)
  have clamp: "Math_min (Num 25) (Math_round (js_mul (js_div (Num a) (Num b)) (Num 25))) =
               Num (min 25 (round_real (a / b * 25)))" if "b \<noteq> 0" for a b
    using that by (simp add: min_def)
  have d: "real_of_int (min days 7) \<noteq> 0"
    using assms by simp
  show ?thesis
  proof (cases "filter (\<lambda>s. startTime s \<ge> now - days * 86400000) sessions = [] \<and>
                filter (\<lambda>t. timestamp t \<ge> now - days * 86400000) morningTests = []")
    case True
    then have e: "{s \<in> set sessions. now - days * 86400000 \<le> startTime s} = {}"
      "{t \<in> set morningTests. now - days * 86400000 \<le> timestamp t} = {}"
      by (auto simp: filter_empty_conv)
    have z: "min (0::int) days = 0"
      using assms by simp
    show ?thesis
      unfolding calculateRecoveryScore_def Let_def e
      by (simp add: True round_real_def z no_data_def)
  next
    case False
    have "consistency (recovery_factors (calculateRecoveryScore now toDateString sessions morningTests days)) =
      recovery_consistencyScore toDateString
        (filter (\<lambda>s. startTime s \<ge> now - days * 86400000) sessions)
        (filter (\<lambda>t. timestamp t \<ge> now - days * 86400000) morningTests) days"
      using False by (auto simp: calculateRecoveryScore_def Let_def split_def)
    then show ?thesis
      unfolding recovery_consistencyScore_def Let_def sz clamp [OF d] .
  qed
qed

theorem consistency_sums_day_counts_witness:
  "(1::int) \<le> 7 \<and>
   consistency (recovery_factors (calculateRecoveryScore 1728000000000 utc_day
      [sample_session 1727996400000, sample_session 1727900000000]
      [sample_test 1727992800000] 7)) =
   Num (min 25 (round_real (real_of_int (min
       (int (card ((\<lambda>s. utc_day (startTime s)) `
                     {s \<in> set [sample_session 1727996400000, sample_session 1727900000000].
                      1728000000000 - 7 * 86400000 \<le> startTime s})
           + card ((\<lambda>t. utc_day (timestamp t)) `
                     {t \<in> set [sample_test 1727992800000].
                      1728000000000 - 7 * 86400000 \<le> timestamp t})))
       7) / real_of_int (min 7 7) * 25)))"
proof -
  have window: "(1::int) \<le> 7"
    by simp
  from consistency_sums_day_counts [OF window, of 1728000000000 utc_day
         "[sample_session 1727996400000, sample_session 1727900000000]"
         "[sample_test 1727992800000]"]
  show ?thesis by simp
qed

section \<open>Properties of the trend aggregator\<close>

text \<open>
  Every point carries the score of one and the same call: the recovery calculation over
  the whole history with a 1-day window that ends at the clock value of the call. Neither
  the date of the point nor its sessions and tests enter it.
\<close>

lemma buildTrendData_recoveryScore:
  assumes "i < length (buildTrendData now clock toLocaleDateString toDateString sessions morningTests days)"
  shows "recoveryScore (buildTrendData now clock toLocaleDateString toDateString sessions morningTests days ! i) =
         recovery_score (calculateRecoveryScore (clock i) toDateString sessions morningTests 1)"
  using assms
  by (simp add: buildTrendData_def Let_def split_def nth_enumerate_eq)

text \<open>
  Claim C3 says that the 1-day window is anchored so that the day of the point is recent,
  and that the score of a point reflects that day alone. Evaluated: with one session five
  days before the call and a 30-day trend window, the only point (mean RMSSD 50) has the
  recovery score 0 of the no-data sentinel, where a 1-day window that ends just after that
  session gives 85; with a second session one hour before the call, both points carry
  the same score.
\<close>

theorem buildTrendData_recovery_not_per_day:
  "map recoveryScore (buildTrendData 1728000000000 (\<lambda>i. 1728000000000) utc_day utc_day
      [sample_session 1727568000000] [] 30) = [Num 0] \<and>
   map point_rmssd (buildTrendData 1728000000000 (\<lambda>i. 1728000000000) utc_day utc_day
      [sample_session 1727568000000] [] 30) = [50] \<and>
   recovery_score (calculateRecoveryScore 1727568001000 utc_day
      [sample_session 1727568000000] [] 1) = Num 85 \<and>
   map recoveryScore (buildTrendData 1728000000000 (\<lambda>i. 1728000000000) utc_day utc_day
      [sample_session 1727568000000, sample_session 1727996400000] [] 30) = [Num 85, Num 85]"
  by (simp add: buildTrendData_def first_time_def recovery_eval)

end
